theory Spec2Isabelle
  imports Main "HOL-Library.Word"
begin

section \<open>Peripheral Heart Rate over LE Coded PHY: the sample's \<open>main.c\<close>\<close>

text \<open>
  The sample is glue code over the Bluetooth host stack, the kernel's work queue and the
  board's LED driver. The embedding keeps the sample's own statics in a record, writes
  every call into those collaborators to a trace (in call order), and takes what a
  collaborator returns as a parameter, one field per call site: each call site runs at
  most once per invocation of the function that holds it.
\<close>

subsection \<open>Types\<close>

type_synonym u8 = "8 word"
type_synonym u32 = "32 word"

text \<open>\<open>struct bt_le_ext_adv *\<close> and \<open>struct bt_conn *\<close>: opaque handles, 0 is \<open>NULL\<close>.\<close>
type_synonym adv_ptr = nat
type_synonym conn_ptr = nat

text \<open>
  The \<open>data\<close> pointer of a \<open>struct bt_data\<close> points at one of the sample's static
  buffers: row \<open>i\<close> of \<open>adv_mfg_full\<close>, or \<open>adv_mfg_last\<close>.
\<close>
datatype buf_ref = Null_buf | Adv_mfg_full nat | Adv_mfg_last

record bt_data =
  type :: u8
  data_len :: u8
  data :: buf_ref

text \<open>The LEDs of the board, the two work items and the two AD tables of the sample.\<close>
datatype dk_led = DK_LED1 | DK_LED2
datatype work_item = Start_advertising_worker | Notify_work
datatype ad_table = Ad_conn | Ad_large

text \<open>Advertising options and interval constants of the host stack, kept symbolic.\<close>
datatype adv_opt =
  BT_LE_ADV_OPT_CONN | BT_LE_ADV_OPT_EXT_ADV | BT_LE_ADV_OPT_CODED
  | BT_LE_ADV_OPT_REQUIRE_S8_CODING
datatype adv_interval =
  BT_GAP_ADV_FAST_INT_MIN_2 | BT_GAP_ADV_FAST_INT_MAX_2
  | BT_GAP_ADV_SLOW_INT_MIN | BT_GAP_ADV_SLOW_INT_MAX

record bt_le_adv_param =
  options :: "adv_opt list"
  interval_min :: adv_interval
  interval_max :: adv_interval

datatype printk_arg = ArgInt int | ArgU8 u8 | ArgStr string | ArgPtr adv_ptr

text \<open>One constructor per external function the sample calls, with the arguments passed.\<close>
datatype event =
  Printk string "printk_arg list"
  | Dk_leds_init
  | Dk_set_led_on dk_led
  | Dk_set_led_off dk_led
  | Dk_set_led dk_led u32
  | Bt_enable
  | Bt_le_ext_adv_create bt_le_adv_param
  | Bt_le_ext_adv_set_data adv_ptr ad_table nat
  | Bt_le_ext_adv_start adv_ptr
  | Bt_conn_get_dst conn_ptr
  | Bt_addr_le_to_str
  | Bt_conn_get_info conn_ptr
  | Bt_bas_get_battery_level
  | Bt_bas_set_battery_level u8
  | Bt_hrs_notify u8
  | K_work_submit work_item
  | K_work_schedule work_item nat
  | K_work_reschedule work_item nat
  | K_sleep nat

text \<open>
  The statics of \<open>main.c\<close>, the level held by the Battery Service (read by
  \<open>bt_bas_get_battery_level\<close>, stored by \<open>bt_bas_set_battery_level\<close>) and the trace.
\<close>
record app =
  adv_conn :: adv_ptr
  adv_large :: adv_ptr
  adv_mfg_full :: "u8 list list"
  adv_mfg_last :: "u8 list"
  ad_large :: "bt_data list"
  heartrate :: u8
  battery_level :: u8
  trace :: "event list"

subsection \<open>Constants\<close>

definition RUN_STATUS_LED :: dk_led where "RUN_STATUS_LED = DK_LED1"
definition CON_STATUS_LED :: dk_led where "CON_STATUS_LED = DK_LED2"
definition RUN_LED_BLINK_INTERVAL :: nat where "RUN_LED_BLINK_INTERVAL = 1000"
definition NOTIFY_INTERVAL :: nat where "NOTIFY_INTERVAL = 1000"
definition K_NO_WAIT :: nat where "K_NO_WAIT = 0"

text \<open>
  \<open>BT_DATA_MANUFACTURER_DATA\<close> is the host stack's; the comment above \<open>ADV_TARGET_TOTAL_LEN\<close>
  gives its value: "Manufacturer Specific Data AD structures (type 0xFF)".
\<close>
definition BT_DATA_MANUFACTURER_DATA :: u8 where "BT_DATA_MANUFACTURER_DATA = 0xFF"

text \<open>The sizing macros are \<open>int\<close> constant expressions of the preprocessor.\<close>
definition ADV_TARGET_TOTAL_LEN :: int where "ADV_TARGET_TOTAL_LEN = 1650"
definition MFG_AD_TYPE :: u8 where "MFG_AD_TYPE = BT_DATA_MANUFACTURER_DATA"
definition MFG_DATA_BYTES_PER_FULL_ENTRY :: int where "MFG_DATA_BYTES_PER_FULL_ENTRY = 254"
definition FULL_ENTRY_TOTAL_BYTES :: int where
  "FULL_ENTRY_TOTAL_BYTES = 1 + 1 + MFG_DATA_BYTES_PER_FULL_ENTRY"
definition FULL_ENTRY_COUNT :: int where "FULL_ENTRY_COUNT = 6"
definition LAST_ENTRY_TOTAL_BYTES :: int where
  "LAST_ENTRY_TOTAL_BYTES = ADV_TARGET_TOTAL_LEN - (FULL_ENTRY_COUNT * FULL_ENTRY_TOTAL_BYTES)"
definition LAST_ENTRY_DATA_LEN :: int where
  "LAST_ENTRY_DATA_LEN = LAST_ENTRY_TOTAL_BYTES - 2"

text \<open>The two \<open>BUILD_ASSERT\<close>s: the file compiles only if both conditions hold.\<close>
definition build_assert_full_entry :: bool where
  "build_assert_full_entry = (FULL_ENTRY_TOTAL_BYTES = 256)"
definition build_assert_last_entry :: bool where
  "build_assert_last_entry = (LAST_ENTRY_DATA_LEN > 0)"

definition MFG_COMPANY_ID_LSB :: u8 where "MFG_COMPANY_ID_LSB = 0x59"
definition MFG_COMPANY_ID_MSB :: u8 where "MFG_COMPANY_ID_MSB = 0x00"

subsection \<open>The static buffers\<close>

text \<open>
  The declared shape of the static arrays:
  \<open>adv_mfg_full[FULL_ENTRY_COUNT][MFG_DATA_BYTES_PER_FULL_ENTRY]\<close>,
  \<open>adv_mfg_last[LAST_ENTRY_DATA_LEN]\<close> and \<open>ad_large[FULL_ENTRY_COUNT + 1]\<close>.
\<close>
definition wf_bufs :: "app \<Rightarrow> bool" where
  "wf_bufs s =
     (length (adv_mfg_full s) = nat FULL_ENTRY_COUNT
      \<and> list_all (\<lambda>row. length row = nat MFG_DATA_BYTES_PER_FULL_ENTRY) (adv_mfg_full s)
      \<and> length (adv_mfg_last s) = nat LAST_ENTRY_DATA_LEN
      \<and> length (ad_large s) = nat (FULL_ENTRY_COUNT + 1))"

text \<open>The statics at program start: zero-initialised, except \<open>heartrate = 100\<close>.\<close>
definition init_app :: "u8 \<Rightarrow> app" where
  "init_app b =
     \<lparr> adv_conn = 0, adv_large = 0,
       adv_mfg_full = replicate (nat FULL_ENTRY_COUNT)
                        (replicate (nat MFG_DATA_BYTES_PER_FULL_ENTRY) 0),
       adv_mfg_last = replicate (nat LAST_ENTRY_DATA_LEN) 0,
       ad_large = replicate (nat (FULL_ENTRY_COUNT + 1))
                    \<lparr> type = 0, data_len = 0, data = Null_buf \<rparr>,
       heartrate = 100,
       battery_level = b,
       trace = [] \<rparr>"

text \<open>What a \<open>data\<close> pointer points at, and the \<open>data_len\<close> bytes an AD entry carries.\<close>
fun deref :: "app \<Rightarrow> buf_ref \<Rightarrow> u8 list" where
  "deref s Null_buf = []"
| "deref s (Adv_mfg_full i) = adv_mfg_full s ! i"
| "deref s Adv_mfg_last = adv_mfg_last s"

definition entry_data :: "app \<Rightarrow> bt_data \<Rightarrow> u8 list" where
  "entry_data s e = take (unat (data_len e)) (deref s (data e))"

text \<open>
  What one AD structure contributes to the advertising data length:
  1 (Length) + 1 (Type) + the data bytes, as \<open>FULL_ENTRY_TOTAL_BYTES\<close> counts it.
\<close>
definition entry_total_bytes :: "bt_data \<Rightarrow> int" where
  "entry_total_bytes e = 1 + 1 + int (unat (data_len e))"

subsection \<open>\<open>build_large_adv_payload\<close>\<close>

text \<open>\<open>for (size_t j = j0; j < n; j++) buf[j] = v;\<close>\<close>
function fill_from :: "nat \<Rightarrow> nat \<Rightarrow> u8 \<Rightarrow> u8 list \<Rightarrow> u8 list" where
  "fill_from j n v buf = (if j < n then fill_from (Suc j) n v (buf[j := v]) else buf)"
  by pat_completeness auto
termination
  by (relation "measure (\<lambda>(j, n, v, buf). n - j)") auto

text \<open>The body of the loop over the full entries, for one \<open>i\<close>.\<close>
definition build_full_entry :: "nat \<Rightarrow> app \<Rightarrow> app" where
  "build_full_entry i s =
     (let buf = adv_mfg_full s ! i;
          buf = buf[0 := MFG_COMPANY_ID_LSB];
          buf = buf[1 := MFG_COMPANY_ID_MSB];
          buf = fill_from 2 (nat MFG_DATA_BYTES_PER_FULL_ENTRY) (of_nat (i + 1)) buf;
          s = s\<lparr>adv_mfg_full := (adv_mfg_full s)[i := buf]\<rparr>
      in s\<lparr>ad_large := (ad_large s)[i :=
             \<lparr> type = MFG_AD_TYPE,
               data_len = of_int MFG_DATA_BYTES_PER_FULL_ENTRY,
               data = Adv_mfg_full i \<rparr>]\<rparr>)"

text \<open>\<open>for (int i = i0; i < FULL_ENTRY_COUNT; i++) { ... }\<close>\<close>
function build_full_entries :: "nat \<Rightarrow> app \<Rightarrow> app" where
  "build_full_entries i s =
     (if int i < FULL_ENTRY_COUNT then build_full_entries (Suc i) (build_full_entry i s)
      else s)"
  by pat_completeness auto
termination
  by (relation "measure (\<lambda>(i, s). nat FULL_ENTRY_COUNT - i)") auto

definition build_large_adv_payload :: "app \<Rightarrow> app" where
  "build_large_adv_payload s0 =
     (let s = build_full_entries 0 s0;
          buf = adv_mfg_last s;
          buf = buf[0 := MFG_COMPANY_ID_LSB];
          buf = buf[1 := MFG_COMPANY_ID_MSB];
          buf = fill_from 2 (nat LAST_ENTRY_DATA_LEN) 0xEE buf;
          s = s\<lparr>adv_mfg_last := buf\<rparr>
      in s\<lparr>ad_large := (ad_large s)[nat FULL_ENTRY_COUNT :=
             \<lparr> type = MFG_AD_TYPE,
               data_len = of_int LAST_ENTRY_DATA_LEN,
               data = Adv_mfg_last \<rparr>]\<rparr>)"

subsection \<open>Calls into the collaborators\<close>

definition emit :: "event \<Rightarrow> app \<Rightarrow> app" where
  "emit e s = s\<lparr>trace := trace s @ [e]\<rparr>"

definition printk :: "string \<Rightarrow> printk_arg list \<Rightarrow> app \<Rightarrow> app" where
  "printk fmt args s = emit (Printk fmt args) s"

definition dk_set_led_on :: "dk_led \<Rightarrow> app \<Rightarrow> app" where
  "dk_set_led_on led s = emit (Dk_set_led_on led) s"

definition dk_set_led_off :: "dk_led \<Rightarrow> app \<Rightarrow> app" where
  "dk_set_led_off led s = emit (Dk_set_led_off led) s"

definition k_work_submit :: "work_item \<Rightarrow> app \<Rightarrow> app" where
  "k_work_submit w s = emit (K_work_submit w) s"

text \<open>
  The Battery Service as a cell: the getter returns the level the service holds, the
  setter stores the level it is given. The sample ignores the setter's return value.
\<close>
definition bt_bas_get_battery_level :: "app \<Rightarrow> u8 \<times> app" where
  "bt_bas_get_battery_level s = (battery_level s, emit Bt_bas_get_battery_level s)"

definition bt_bas_set_battery_level :: "u8 \<Rightarrow> app \<Rightarrow> app" where
  "bt_bas_set_battery_level level s =
     emit (Bt_bas_set_battery_level level) (s\<lparr>battery_level := level\<rparr>)"

subsection \<open>\<open>phy_to_str\<close>\<close>

text \<open>
  The PHY codes are enumerators of the host stack's headers and are taken as a
  parameter. A \<open>switch\<close> compiles only if its case labels are pairwise distinct.
\<close>
record gap_phy =
  BT_GAP_LE_PHY_NONE :: u8
  BT_GAP_LE_PHY_1M :: u8
  BT_GAP_LE_PHY_2M :: u8
  BT_GAP_LE_PHY_CODED :: u8
  BT_GAP_LE_PHY_CODED_S8 :: u8
  BT_GAP_LE_PHY_CODED_S2 :: u8

definition case_labels :: "gap_phy \<Rightarrow> u8 list" where
  "case_labels c =
     [BT_GAP_LE_PHY_NONE c, BT_GAP_LE_PHY_1M c, BT_GAP_LE_PHY_2M c,
      BT_GAP_LE_PHY_CODED c, BT_GAP_LE_PHY_CODED_S8 c, BT_GAP_LE_PHY_CODED_S2 c]"

definition phy_to_str :: "gap_phy \<Rightarrow> u8 \<Rightarrow> string" where
  "phy_to_str c phy =
     (if phy = BT_GAP_LE_PHY_NONE c then ''No packets''
      else if phy = BT_GAP_LE_PHY_1M c then ''LE 1M''
      else if phy = BT_GAP_LE_PHY_2M c then ''LE 2M''
      else if phy = BT_GAP_LE_PHY_CODED c then ''LE Coded''
      else if phy = BT_GAP_LE_PHY_CODED_S8 c then ''S=8 Coded''
      else if phy = BT_GAP_LE_PHY_CODED_S2 c then ''S=2 Coded''
      else ''Unknown'')"

subsection \<open>Connection callbacks\<close>

record bt_conn_le_phy_info =
  tx_phy :: u8
  rx_phy :: u8

text \<open>
  What the host stack answers during a connection callback: the peer address string
  written by \<open>bt_addr_le_to_str\<close>, the text of \<open>bt_hci_err_to_str\<close>, and the return
  value of \<open>bt_conn_get_info\<close> with the \<open>info.le.phy\<close> it fills in.
\<close>
record conn_env =
  phy_codes :: gap_phy
  bt_hci_err_to_str :: "u8 \<Rightarrow> string"
  addr_str :: string
  get_info_ret :: int
  get_info_phy :: bt_conn_le_phy_info

definition connected :: "conn_env \<Rightarrow> conn_ptr \<Rightarrow> u8 \<Rightarrow> app \<Rightarrow> app" where
  "connected env conn conn_err s0 =
     (let s = emit (Bt_conn_get_dst conn) s0;
          s = emit Bt_addr_le_to_str s;
          addr = addr_str env
      in if conn_err \<noteq> 0 then
           printk ''Connection failed, err 0x%02x %s\<newline>''
             [ArgU8 conn_err, ArgStr (bt_hci_err_to_str env conn_err)] s
         else
           let s = emit (Bt_conn_get_info conn) s;
               err = get_info_ret env;
               s = (if err \<noteq> 0 then
                      printk ''Failed to get connection info (err %d)\<newline>'' [ArgInt err] s
                    else
                      let phy_info = get_info_phy env
                      in printk ''Connected: %s, tx_phy %s, rx_phy %s\<newline>''
                           [ArgStr addr,
                            ArgStr (phy_to_str (phy_codes env) (tx_phy phy_info)),
                            ArgStr (phy_to_str (phy_codes env) (rx_phy phy_info))] s)
           in dk_set_led_on CON_STATUS_LED s)"

definition disconnected :: "conn_env \<Rightarrow> conn_ptr \<Rightarrow> u8 \<Rightarrow> app \<Rightarrow> app" where
  "disconnected env conn reason s0 =
     (let s = printk ''Disconnected, reason 0x%02x %s\<newline>''
                [ArgU8 reason, ArgStr (bt_hci_err_to_str env reason)] s0;
          s = k_work_submit Start_advertising_worker s
      in dk_set_led_off CON_STATUS_LED s)"

subsection \<open>Advertising sets\<close>

text \<open>
  What the host stack answers to the four calls of \<open>create_advertising_coded\<close>: the
  return value of each, and for a create call the handle left in its out-parameter.
\<close>
record adv_env =
  create_conn_ret :: int
  create_conn_adv :: adv_ptr
  set_conn_ret :: int
  create_large_ret :: int
  create_large_adv :: adv_ptr
  set_large_ret :: int

definition param_conn :: bt_le_adv_param where
  "param_conn =
     \<lparr> options = [BT_LE_ADV_OPT_CONN, BT_LE_ADV_OPT_EXT_ADV, BT_LE_ADV_OPT_CODED,
                  BT_LE_ADV_OPT_REQUIRE_S8_CODING],
       interval_min = BT_GAP_ADV_FAST_INT_MIN_2,
       interval_max = BT_GAP_ADV_FAST_INT_MAX_2 \<rparr>"

definition param_large :: bt_le_adv_param where
  "param_large =
     \<lparr> options = [BT_LE_ADV_OPT_EXT_ADV, BT_LE_ADV_OPT_CODED,
                  BT_LE_ADV_OPT_REQUIRE_S8_CODING],
       interval_min = BT_GAP_ADV_SLOW_INT_MIN,
       interval_max = BT_GAP_ADV_SLOW_INT_MAX \<rparr>"

text \<open>\<open>ARRAY_SIZE(ad_conn)\<close>: the initialiser lists three entries (flags, UUIDs, name).\<close>
definition ad_conn_size :: nat where "ad_conn_size = 3"

text \<open>\<open>ARRAY_SIZE(ad_large)\<close>: the array is declared with \<open>FULL_ENTRY_COUNT + 1\<close> entries.\<close>
definition ad_large_size :: nat where "ad_large_size = nat (FULL_ENTRY_COUNT + 1)"

definition create_advertising_coded :: "adv_env \<Rightarrow> app \<Rightarrow> int \<times> app" where
  "create_advertising_coded env s0 =
     (let s = emit (Bt_le_ext_adv_create param_conn) s0;
          s = s\<lparr>adv_conn := create_conn_adv env\<rparr>;
          err = create_conn_ret env
      in if err \<noteq> 0 then
           (err, printk ''Failed to create connectable advertiser (err %d)\<newline>'' [ArgInt err] s)
         else
      let s = printk ''Created connectable adv: %p\<newline>'' [ArgPtr (adv_conn s)] s;
          s = emit (Bt_le_ext_adv_set_data (adv_conn s) Ad_conn ad_conn_size) s;
          err = set_conn_ret env
      in if err \<noteq> 0 then
           (err, printk ''Failed to set connectable adv data (err %d)\<newline>'' [ArgInt err] s)
         else
      let s = emit (Bt_le_ext_adv_create param_large) s;
          s = s\<lparr>adv_large := create_large_adv env\<rparr>;
          err = create_large_ret env
      in if err \<noteq> 0 then
           (err, printk ''Failed to create large advertiser (err %d)\<newline>'' [ArgInt err] s)
         else
      let s = printk ''Created large adv: %p\<newline>'' [ArgPtr (adv_large s)] s;
          s = build_large_adv_payload s;
          s = emit (Bt_le_ext_adv_set_data (adv_large s) Ad_large ad_large_size) s;
          err = set_large_ret env
      in if err \<noteq> 0 then
           (err, printk ''Failed to set large adv data (err %d)\<newline>'' [ArgInt err] s)
         else (0, s))"

record start_env =
  start_conn_ret :: int
  start_large_ret :: int

definition start_advertising_coded :: "start_env \<Rightarrow> app \<Rightarrow> app" where
  "start_advertising_coded env s0 =
     (let s = emit (Bt_le_ext_adv_start (adv_conn s0)) s0;
          err = start_conn_ret env
      in if err \<noteq> 0 then
           printk ''Failed to start connectable advertiser (err %d)\<newline>'' [ArgInt err] s
         else
      let s = printk ''Connectable advertiser %p started\<newline>'' [ArgPtr (adv_conn s)] s;
          s = emit (Bt_le_ext_adv_start (adv_large s)) s;
          err = start_large_ret env
      in if err \<noteq> 0 then
           printk ''Failed to start large advertiser (err %d)\<newline>'' [ArgInt err] s
         else printk ''Large advertiser %p started\<newline>'' [ArgPtr (adv_large s)] s)"

subsection \<open>Periodic simulator\<close>

text \<open>
  \<open>__ASSERT_NO_MSG\<close> halts the program when assertions are compiled in
  (\<open>assert_on\<close>) and the condition is false; otherwise it is empty. \<open>None\<close> is the halt.
\<close>
definition bas_notify :: "bool \<Rightarrow> app \<Rightarrow> app option" where
  "bas_notify assert_on s0 =
     (let (battery_level, s) = bt_bas_get_battery_level s0
      in if assert_on \<and> \<not> (battery_level > 0) then None
         else
           let battery_level = battery_level - 1;
               battery_level = (if battery_level = 0 then 100 else battery_level)
           in Some (bt_bas_set_battery_level battery_level s))"

definition hrs_notify :: "app \<Rightarrow> app" where
  "hrs_notify s0 =
     (let s = s0\<lparr>heartrate := heartrate s0 + 1\<rparr>;
          s = (if heartrate s = 160 then s\<lparr>heartrate := 100\<rparr> else s)
      in emit (Bt_hrs_notify (heartrate s)) s)"

definition notify_work_handler :: "bool \<Rightarrow> app \<Rightarrow> app option" where
  "notify_work_handler assert_on s0 =
     (case bas_notify assert_on (hrs_notify s0) of
        None \<Rightarrow> None
      | Some s \<Rightarrow> Some (emit (K_work_reschedule Notify_work NOTIFY_INTERVAL) s))"

text \<open>\<open>n\<close> invocations in a row of each notifier.\<close>
fun run_hrs_notify :: "nat \<Rightarrow> app \<Rightarrow> app" where
  "run_hrs_notify 0 s = s"
| "run_hrs_notify (Suc n) s = run_hrs_notify n (hrs_notify s)"

fun run_bas_notify :: "bool \<Rightarrow> nat \<Rightarrow> app \<Rightarrow> app option" where
  "run_bas_notify assert_on 0 s = Some s"
| "run_bas_notify assert_on (Suc n) s =
     (case bas_notify assert_on s of
        None \<Rightarrow> None
      | Some s' \<Rightarrow> run_bas_notify assert_on n s')"

text \<open>The values handed to \<open>bt_hrs_notify\<close> and to \<open>bt_bas_set_battery_level\<close> in a trace.\<close>
fun hrs_values :: "event list \<Rightarrow> u8 list" where
  "hrs_values [] = []"
| "hrs_values (Bt_hrs_notify v # es) = v # hrs_values es"
| "hrs_values (e # es) = hrs_values es"

fun bas_values :: "event list \<Rightarrow> u8 list" where
  "bas_values [] = []"
| "bas_values (Bt_bas_set_battery_level v # es) = v # bas_values es"
| "bas_values (e # es) = bas_values es"

text \<open>The events a run from \<open>s\<close> to \<open>s'\<close> appended to the trace.\<close>
definition emitted :: "app \<Rightarrow> app \<Rightarrow> event list" where
  "emitted s s' = drop (length (trace s)) (trace s')"

subsection \<open>\<open>main\<close>\<close>

record startup_env =
  dk_leds_init_ret :: int
  bt_enable_ret :: int
  adv :: adv_env

text \<open>
  \<open>for (;;)\<close> has no exit: \<open>fuel\<close> bounds the iterations that are run, and \<open>main\<close>
  returns \<open>None\<close> for "still in the loop" and \<open>Some r\<close> for \<open>return r\<close>.
\<close>
fun status_loop :: "nat \<Rightarrow> u32 \<Rightarrow> app \<Rightarrow> app" where
  "status_loop 0 led_status s = s"
| "status_loop (Suc fuel) led_status s =
     (let led_status = led_status + 1;
          s = emit (Dk_set_led RUN_STATUS_LED (led_status mod 2)) s;
          s = emit (K_sleep RUN_LED_BLINK_INTERVAL) s
      in status_loop fuel led_status s)"

definition main :: "nat \<Rightarrow> startup_env \<Rightarrow> app \<Rightarrow> int option \<times> app" where
  "main fuel env s0 =
     (let led_status = 0;
          s = printk ''Starting Bluetooth Peripheral HR coded sample\<newline>'' [] s0;
          s = emit Dk_leds_init s;
          err = dk_leds_init_ret env
      in if err \<noteq> 0 then
           (Some 0, printk ''LEDs init failed (err %d)\<newline>'' [ArgInt err] s)
         else
      let s = emit Bt_enable s;
          err = bt_enable_ret env
      in if err \<noteq> 0 then
           (Some 0, printk ''Bluetooth init failed (err %d)\<newline>'' [ArgInt err] s)
         else
      let s = printk ''Bluetooth initialized\<newline>'' [] s;
          (err, s) = create_advertising_coded (adv env) s
      in if err \<noteq> 0 then
           (Some 0, printk ''Advertising failed to create (err %d)\<newline>'' [ArgInt err] s)
         else
      let s = k_work_submit Start_advertising_worker s;
          s = emit (K_work_schedule Notify_work K_NO_WAIT) s
      in (None, status_loop fuel led_status s))"

section \<open>Properties\<close>

subsection \<open>The large advertising payload\<close>

declare fill_from.simps [simp del] build_full_entries.simps [simp del]

lemma fill_from_eq:
  "j \<le> n \<Longrightarrow> n \<le> length buf \<Longrightarrow>
   fill_from j n v buf = take j buf @ replicate (n - j) v @ drop n buf"
proof (induction j n v buf rule: fill_from.induct)
  case (1 j n v buf)
  show ?case
  proof (cases "j < n")
    case True
    then have "fill_from j n v buf = fill_from (Suc j) n v (buf[j := v])"
      by (subst fill_from.simps) simp
    also have "\<dots> = take (Suc j) (buf[j := v]) @ replicate (n - Suc j) v @ drop n (buf[j := v])"
      using "1.IH" [OF True] True "1.prems" by simp
    also have "\<dots> = take j buf @ replicate (n - j) v @ drop n buf"
    proof -
      have a: "take (Suc j) (buf[j := v]) = take j buf @ [v]"
        using True "1.prems" by (simp add: take_Suc_conv_app_nth)
      have b: "drop n (buf[j := v]) = drop n buf"
        using True by simp
      have "n - j = Suc (n - Suc j)"
        using True by simp
      then have c: "[v] @ replicate (n - Suc j) v = replicate (n - j) v"
        by (simp only: replicate_Suc append_Cons append_Nil)
      show ?thesis unfolding a b using c by simp
    qed
    finally show ?thesis .
  next
    case False
    with "1.prems" have "j = n" by simp
    then show ?thesis by (subst fill_from.simps) simp
  qed
qed

lemma fill_row:
  assumes "length buf = n" and "2 \<le> n"
  shows "fill_from 2 n v (buf[0 := a, 1 := b]) = a # b # replicate (n - 2) v"
proof -
  obtain x y rest where buf: "buf = x # y # rest"
    using assms by (cases buf; cases "tl buf") auto
  have "fill_from 2 n v (buf[0 := a, 1 := b])
        = take 2 (buf[0 := a, 1 := b]) @ replicate (n - 2) v @ drop n (buf[0 := a, 1 := b])"
    using assms by (intro fill_from_eq) simp_all
  also have "\<dots> = a # b # replicate (n - 2) v"
    using assms by (simp add: buf numeral_2_eq_2)
  finally show ?thesis .
qed

lemma sizes:
  "nat FULL_ENTRY_COUNT = 6" "nat MFG_DATA_BYTES_PER_FULL_ENTRY = 254"
  "nat LAST_ENTRY_DATA_LEN = 112" "nat (FULL_ENTRY_COUNT + 1) = 7"
  by (simp_all add: FULL_ENTRY_COUNT_def MFG_DATA_BYTES_PER_FULL_ENTRY_def
        LAST_ENTRY_DATA_LEN_def LAST_ENTRY_TOTAL_BYTES_def ADV_TARGET_TOTAL_LEN_def
        FULL_ENTRY_TOTAL_BYTES_def)

lemma build_full_entries_unroll:
  "build_full_entries 0 s =
     build_full_entry 5 (build_full_entry 4 (build_full_entry 3
       (build_full_entry 2 (build_full_entry 1 (build_full_entry 0 s)))))"
proof -
  have stop: "\<And>t. build_full_entries 6 t = t"
    by (subst build_full_entries.simps) (simp add: FULL_ENTRY_COUNT_def)
  have step: "\<And>i t. i < 6 \<Longrightarrow>
      build_full_entries i t = build_full_entries (Suc i) (build_full_entry i t)"
    by (subst build_full_entries.simps) (simp add: FULL_ENTRY_COUNT_def)
  have "build_full_entries 0 s = build_full_entries 6
     (build_full_entry 5 (build_full_entry 4 (build_full_entry 3
       (build_full_entry 2 (build_full_entry 1 (build_full_entry 0 s))))))"
    by (simp add: step eval_nat_numeral)
  then show ?thesis by (simp only: stop)
qed


lemma build_full_entry_eq:
  assumes "length (adv_mfg_full s ! i) = 254"
  shows "build_full_entry i s =
     s\<lparr>adv_mfg_full := (adv_mfg_full s)[i := 0x59 # 0x00 # replicate 252 (of_nat (i + 1))],
        ad_large := (ad_large s)[i := \<lparr> type = 0xFF, data_len = 254, data = Adv_mfg_full i \<rparr>]\<rparr>"
proof -
  have "fill_from 2 254 (of_nat (i + 1)) ((adv_mfg_full s ! i)[0 := 0x59, 1 := 0x00])
        = 0x59 # 0x00 # replicate (254 - 2) (of_nat (i + 1))"
    using assms by (intro fill_row) simp_all
  then show ?thesis
    by (simp add: build_full_entry_def Let_def sizes MFG_COMPANY_ID_LSB_def
          MFG_COMPANY_ID_MSB_def MFG_AD_TYPE_def BT_DATA_MANUFACTURER_DATA_def
          MFG_DATA_BYTES_PER_FULL_ENTRY_def)
qed

lemma length_6E:
  assumes "length xs = 6"
  obtains a b c d e f where "xs = [a, b, c, d, e, f]"
  using assms by (auto simp: length_Suc_conv eval_nat_numeral)

lemma length_7E:
  assumes "length xs = 7"
  obtains a b c d e f g where "xs = [a, b, c, d, e, f, g]"
  using assms by (auto simp: length_Suc_conv eval_nat_numeral)

lemma build_full_entries_result:
  assumes "wf_bufs s"
  shows "build_full_entries 0 s =
     s\<lparr>adv_mfg_full :=
          map (\<lambda>i. 0x59 # 0x00 # replicate 252 (of_nat (i + 1))) [0, 1, 2, 3, 4, 5],
        ad_large :=
          map (\<lambda>i. \<lparr> type = 0xFF, data_len = 254, data = Adv_mfg_full i \<rparr>) [0, 1, 2, 3, 4, 5]
          @ [ad_large s ! 6]\<rparr>"
proof -
  from assms have len: "length (adv_mfg_full s) = 6" "length (ad_large s) = 7"
    and rows: "list_all (\<lambda>row. length row = 254) (adv_mfg_full s)"
    by (simp_all add: wf_bufs_def sizes)
  obtain r0 r1 r2 r3 r4 r5 where full: "adv_mfg_full s = [r0, r1, r2, r3, r4, r5]"
    using len(1) by (rule length_6E)
  obtain e0 e1 e2 e3 e4 e5 e6 where ad: "ad_large s = [e0, e1, e2, e3, e4, e5, e6]"
    using len(2) by (rule length_7E)
  from rows have r: "length r0 = 254" "length r1 = 254" "length r2 = 254"
    "length r3 = 254" "length r4 = 254" "length r5 = 254"
    by (simp_all add: full)
  show ?thesis
    unfolding build_full_entries_unroll
    by (simp add: build_full_entry_eq full ad r eval_nat_numeral)
qed


lemma build_large_adv_payload_result:
  assumes "wf_bufs s"
  shows "build_large_adv_payload s =
     s\<lparr>adv_mfg_full :=
          map (\<lambda>i. 0x59 # 0x00 # replicate 252 (of_nat (i + 1))) [0, 1, 2, 3, 4, 5],
        adv_mfg_last := 0x59 # 0x00 # replicate 110 0xEE,
        ad_large :=
          map (\<lambda>i. \<lparr> type = 0xFF, data_len = 254, data = Adv_mfg_full i \<rparr>) [0, 1, 2, 3, 4, 5]
          @ [\<lparr> type = 0xFF, data_len = 112, data = Adv_mfg_last \<rparr>]\<rparr>"
proof -
  from assms have "length (adv_mfg_last s) = 112"
    by (simp add: wf_bufs_def sizes)
  then have "fill_from 2 112 0xEE ((adv_mfg_last s)[0 := 0x59, 1 := 0x00])
        = 0x59 # 0x00 # replicate (112 - 2) 0xEE"
    by (intro fill_row) simp_all
  then show ?thesis
    by (simp add: build_large_adv_payload_def Let_def build_full_entries_result [OF assms]
          sizes MFG_COMPANY_ID_LSB_def MFG_COMPANY_ID_MSB_def MFG_AD_TYPE_def
          BT_DATA_MANUFACTURER_DATA_def LAST_ENTRY_DATA_LEN_def LAST_ENTRY_TOTAL_BYTES_def
          ADV_TARGET_TOTAL_LEN_def FULL_ENTRY_COUNT_def FULL_ENTRY_TOTAL_BYTES_def
          MFG_DATA_BYTES_PER_FULL_ENTRY_def)
qed

lemma wf_bufs_init_app: "wf_bufs (init_app b)"
  by (simp add: wf_bufs_def init_app_def sizes list_all_iff)

text \<open>
  C1. Whatever the static buffers held before, \<open>build_large_adv_payload\<close> leaves
  \<open>ad_large\<close> with exactly 7 entries, all of type Manufacturer Specific Data; their total
  sizes (length byte, type byte, data bytes) are six times 256 and once 114, which sum to
  \<open>ADV_TARGET_TOTAL_LEN\<close> = 1650; the data of every entry starts with the company
  identifier 0x59, 0x00 and continues with the fill byte: \<open>i + 1\<close> in full entry \<open>i\<close>,
  0xEE in the last entry.
\<close>
theorem build_large_adv_payload_layout:
  assumes "wf_bufs s"
  shows "length (ad_large (build_large_adv_payload s)) = 7
    \<and> map type (ad_large (build_large_adv_payload s)) = replicate 7 BT_DATA_MANUFACTURER_DATA
    \<and> map entry_total_bytes (ad_large (build_large_adv_payload s))
        = [256, 256, 256, 256, 256, 256, 114]
    \<and> sum_list (map entry_total_bytes (ad_large (build_large_adv_payload s)))
        = ADV_TARGET_TOTAL_LEN
    \<and> map (entry_data (build_large_adv_payload s)) (ad_large (build_large_adv_payload s))
        = [0x59 # 0x00 # replicate 252 1, 0x59 # 0x00 # replicate 252 2,
           0x59 # 0x00 # replicate 252 3, 0x59 # 0x00 # replicate 252 4,
           0x59 # 0x00 # replicate 252 5, 0x59 # 0x00 # replicate 252 6,
           0x59 # 0x00 # replicate 110 0xEE]"
proof -
  have rep: "replicate 7 (255 :: u8) = [255, 255, 255, 255, 255, 255, 255]"
    by (simp add: eval_nat_numeral)
  show ?thesis
    unfolding build_large_adv_payload_result [OF assms]
    by (simp add: entry_total_bytes_def entry_data_def BT_DATA_MANUFACTURER_DATA_def
          ADV_TARGET_TOTAL_LEN_def rep)
qed

theorem build_large_adv_payload_layout_witness:
  "wf_bufs (init_app 100)
   \<and> sum_list (map entry_total_bytes (ad_large (build_large_adv_payload (init_app 100)))) = 1650
   \<and> length (ad_large (build_large_adv_payload (init_app 100))) = 7"
  using build_large_adv_payload_layout [OF wf_bufs_init_app, of 100] wf_bufs_init_app [of 100]
  by (simp add: ADV_TARGET_TOTAL_LEN_def)

text \<open>
  C4. Every entry of the payload built has a data length above 0 and at most 254, and
  its data pointer has that many bytes behind it; \<open>LAST_ENTRY_DATA_LEN\<close> is 112, so
  both build assertions hold for the constants chosen.
\<close>
theorem ad_entry_data_len_bounds:
  assumes "wf_bufs s"
  shows "list_all (\<lambda>e. 0 < unat (data_len e) \<and> unat (data_len e) \<le> 254)
           (ad_large (build_large_adv_payload s))
    \<and> list_all (\<lambda>e. length (deref (build_large_adv_payload s) (data e)) = unat (data_len e))
           (ad_large (build_large_adv_payload s))
    \<and> LAST_ENTRY_DATA_LEN = 112
    \<and> build_assert_last_entry
    \<and> build_assert_full_entry"
  unfolding build_large_adv_payload_result [OF assms]
  by (simp add: build_assert_last_entry_def build_assert_full_entry_def
        LAST_ENTRY_DATA_LEN_def LAST_ENTRY_TOTAL_BYTES_def ADV_TARGET_TOTAL_LEN_def
        FULL_ENTRY_COUNT_def FULL_ENTRY_TOTAL_BYTES_def MFG_DATA_BYTES_PER_FULL_ENTRY_def)

theorem ad_entry_data_len_bounds_witness:
  "wf_bufs (init_app 100)
   \<and> list_all (\<lambda>e. 0 < unat (data_len e) \<and> unat (data_len e) \<le> 254)
           (ad_large (build_large_adv_payload (init_app 100)))
   \<and> 0 < LAST_ENTRY_DATA_LEN"
  using ad_entry_data_len_bounds [OF wf_bufs_init_app, of 100] wf_bufs_init_app [of 100]
  by (simp add: build_assert_last_entry_def)

subsection \<open>The periodic simulator\<close>

lemma emitted_append: "trace s' = trace s @ es \<Longrightarrow> emitted s s' = es"
  by (simp add: emitted_def)

lemma hrs_values_append: "hrs_values (xs @ ys) = hrs_values xs @ hrs_values ys"
  by (induction xs rule: hrs_values.induct) simp_all

lemma bas_values_append: "bas_values (xs @ ys) = bas_values xs @ bas_values ys"
  by (induction xs rule: bas_values.induct) simp_all

lemma hrs_values_map: "hrs_values (map Bt_hrs_notify vs) = vs"
  by (induction vs) simp_all

lemma unat_hr: "r < 156 \<Longrightarrow> unat (of_nat (100 + r) :: u8) = 100 + r"
  by (rule of_nat_inverse [OF refl]) simp

lemma hr_step:
  fixes m :: nat
  defines "h \<equiv> (of_nat (100 + m mod 60) :: u8)"
  shows "(if h + 1 = 160 then 100 else h + 1) = of_nat (100 + Suc m mod 60)"
proof -
  have r: "m mod 60 < 60" by simp
  have h1: "h + 1 = of_nat (100 + Suc (m mod 60))"
    by (simp add: h_def)
  have u60: "unat (160 :: u8) = 160" by simp
  have u: "unat (h + 1) = 101 + m mod 60"
    unfolding h1 using unat_hr [of "Suc (m mod 60)"] r by simp
  show ?thesis
  proof (cases "m mod 60 = 59")
    case True
    then have "h + 1 = 160" by (simp add: h1)
    moreover from True have "Suc m mod 60 = 0" by (simp add: mod_Suc)
    ultimately show ?thesis by simp
  next
    case False
    have "h + 1 \<noteq> 160"
    proof
      assume "h + 1 = 160"
      then have "unat (h + 1) = 160" by (simp only: u60)
      with u False show False by simp
    qed
    moreover from False r have "Suc m mod 60 = Suc (m mod 60)" by (simp add: mod_Suc)
    ultimately show ?thesis by (simp only: h1 if_False)
  qed
qed

lemma hrs_notify_eq:
  "hrs_notify s =
     s\<lparr>heartrate := (if heartrate s + 1 = 160 then 100 else heartrate s + 1),
        trace := trace s @ [Bt_hrs_notify (if heartrate s + 1 = 160 then 100 else heartrate s + 1)]\<rparr>"
  by (simp add: hrs_notify_def emit_def Let_def)

lemma run_hrs_notify_from:
  assumes "heartrate s = of_nat (100 + m mod 60)"
  shows "heartrate (run_hrs_notify n s) = of_nat (100 + (m + n) mod 60)
       \<and> trace (run_hrs_notify n s)
           = trace s @ map (\<lambda>k. Bt_hrs_notify (of_nat (100 + k mod 60))) [Suc m..<Suc (m + n)]"
  using assms
proof (induction n arbitrary: s m)
  case 0
  then show ?case by simp
next
  case (Suc n)
  have hs: "heartrate (hrs_notify s) = of_nat (100 + Suc m mod 60)"
    and ts: "trace (hrs_notify s) = trace s @ [Bt_hrs_notify (of_nat (100 + Suc m mod 60))]"
    using hr_step [of m] by (simp_all only: hrs_notify_eq Suc.prems)
      (simp_all del: of_nat_add of_nat_Suc)
  have upt: "[Suc m..<Suc (m + Suc n)] = Suc m # [Suc (Suc m)..<Suc (Suc m + n)]"
    by (subst upt_conv_Cons) simp_all
  have "heartrate (run_hrs_notify n (hrs_notify s)) = of_nat (100 + (Suc m + n) mod 60)"
    and "trace (run_hrs_notify n (hrs_notify s))
         = trace (hrs_notify s)
           @ map (\<lambda>k. Bt_hrs_notify (of_nat (100 + k mod 60))) [Suc (Suc m)..<Suc (Suc m + n)]"
    using Suc.IH [OF hs] by blast+
  then show ?case
    unfolding upt ts by (simp del: of_nat_add of_nat_Suc upt_Suc)
qed

lemma run_hrs_notify_values:
  assumes "heartrate s = 100"
  shows "hrs_values (emitted s (run_hrs_notify n s))
           = map (\<lambda>k. of_nat (100 + k mod 60)) [1..<Suc n]"
    and "heartrate (run_hrs_notify n s) = of_nat (100 + n mod 60)"
proof -
  have "heartrate s = of_nat (100 + 0 mod 60)" using assms by simp
  from run_hrs_notify_from [OF this, of n]
  have h: "heartrate (run_hrs_notify n s) = of_nat (100 + n mod 60)"
    and t: "trace (run_hrs_notify n s)
           = trace s @ map Bt_hrs_notify (map (\<lambda>k. of_nat (100 + k mod 60)) [1..<Suc n])"
    by simp_all
  show "heartrate (run_hrs_notify n s) = of_nat (100 + n mod 60)" by (rule h)
  show "hrs_values (emitted s (run_hrs_notify n s))
           = map (\<lambda>k. of_nat (100 + k mod 60)) [1..<Suc n]"
    by (simp only: emitted_append [OF t] hrs_values_map)
qed

lemma hr_range: "(100 :: u8) \<le> of_nat (100 + k mod 60) \<and> (of_nat (100 + k mod 60) :: u8) \<le> 159"
proof -
  have "k mod 60 < 156" by (rule less_trans [of _ 60]) simp_all
  then have "unat (of_nat (100 + k mod 60) :: u8) = 100 + k mod 60" by (rule unat_hr)
  moreover have "k mod 60 \<le> 59" by (simp add: Suc_leI flip: less_Suc_eq_le)
  ultimately show ?thesis by (simp add: word_le_nat_alt)
qed


lemma heartrate_init_app: "heartrate (init_app b) = 100"
  by (simp add: init_app_def)

lemma battery_level_init_app: "battery_level (init_app b) = b"
  by (simp add: init_app_def)

text \<open>
  C2. Starting from \<open>heartrate = 100\<close>, \<open>n\<close> invocations of \<open>hrs_notify\<close> call
  \<open>bt_hrs_notify\<close> \<open>n\<close> times, every value passed lies in [100, 159], and so does the
  counter afterwards. One invocation wraps exactly when the incremented counter is 160:
  from 159 it stores and notifies 100, from any other value it stores and notifies the
  value plus one.
\<close>
theorem hrs_notify_range:
  assumes "heartrate s = 100"
  shows "length (hrs_values (emitted s (run_hrs_notify n s))) = n
    \<and> list_all (\<lambda>v. 100 \<le> v \<and> v \<le> 159) (hrs_values (emitted s (run_hrs_notify n s)))
    \<and> 100 \<le> heartrate (run_hrs_notify n s) \<and> heartrate (run_hrs_notify n s) \<le> 159
    \<and> (heartrate t = 159 \<longrightarrow>
          heartrate (hrs_notify t) = 100 \<and> emitted t (hrs_notify t) = [Bt_hrs_notify 100])
    \<and> (heartrate t \<noteq> 159 \<longrightarrow>
          heartrate (hrs_notify t) = heartrate t + 1
          \<and> emitted t (hrs_notify t) = [Bt_hrs_notify (heartrate t + 1)])"
proof -
  have wrap: "heartrate t + 1 = 160 \<longleftrightarrow> heartrate t = 159"
  proof
    assume "heartrate t + 1 = 160"
    then have "heartrate t + 1 - 1 = 160 - 1" by (rule arg_cong)
    then show "heartrate t = 159" by simp
  next
    assume "heartrate t = 159"
    then show "heartrate t + 1 = 160" by simp
  qed
  have step: "trace (hrs_notify t)
      = trace t @ [Bt_hrs_notify (if heartrate t = 159 then 100 else heartrate t + 1)]"
    "heartrate (hrs_notify t) = (if heartrate t = 159 then 100 else heartrate t + 1)"
    by (simp_all add: hrs_notify_eq wrap)
  have "list_all (\<lambda>v. 100 \<le> v \<and> v \<le> 159)
          (map (\<lambda>k. of_nat (100 + k mod 60) :: u8) [1..<Suc n])"
    unfolding list_all_iff using hr_range by (auto simp del: of_nat_add)
  then show ?thesis
    using hr_range [of n] emitted_append [OF step(1)] step(2)
    by (simp add: run_hrs_notify_values [OF assms] del: of_nat_add upt_Suc)
qed

theorem hrs_notify_range_witness:
  "heartrate (init_app 100) = 100
   \<and> list_all (\<lambda>v. 100 \<le> v \<and> v \<le> 159)
        (hrs_values (emitted (init_app 100) (run_hrs_notify 60 (init_app 100))))
   \<and> heartrate (init_app 100\<lparr>heartrate := 159\<rparr>) = 159
   \<and> heartrate (hrs_notify (init_app 100\<lparr>heartrate := 159\<rparr>)) = 100
   \<and> heartrate (init_app 100) \<noteq> 159
   \<and> emitted (init_app 100) (hrs_notify (init_app 100)) = [Bt_hrs_notify 101]"
  using hrs_notify_range [OF heartrate_init_app, of 100 60 "init_app 100\<lparr>heartrate := 159\<rparr>"]
    hrs_notify_range [OF heartrate_init_app, of 100 0 "init_app 100"]
  by (simp add: heartrate_init_app)

text \<open>
  C9. The counter is incremented before it is notified: starting from
  \<open>heartrate = 100\<close>, the value passed to \<open>bt_hrs_notify\<close> by invocation \<open>k\<close>
  (for 1 \<le> \<open>k\<close> \<le> \<open>n\<close>) is \<open>100 + k mod 60\<close>. The first value is 101, and the value 100
  is passed exactly by the invocations whose number is a multiple of 60.
\<close>
theorem hrs_notify_nth_value:
  assumes "heartrate s = 100" and "1 \<le> k" and "k \<le> n"
  shows "length (hrs_values (emitted s (run_hrs_notify n s))) = n
    \<and> unat (hrs_values (emitted s (run_hrs_notify n s)) ! (k - 1)) = 100 + k mod 60
    \<and> (hrs_values (emitted s (run_hrs_notify n s)) ! (k - 1) = 100 \<longleftrightarrow> k mod 60 = 0)
    \<and> hrs_values (emitted s (run_hrs_notify n s)) ! 0 = 101"
proof -
  let ?vs = "hrs_values (emitted s (run_hrs_notify n s))"
  have vs: "?vs = map (\<lambda>k. of_nat (100 + k mod 60)) [1..<Suc n]"
    by (rule run_hrs_notify_values [OF assms(1)])
  have nth: "?vs ! (j - 1) = of_nat (100 + j mod 60)" if "1 \<le> j" "j \<le> n" for j
  proof -
    from that have "[1..<Suc n] ! (j - 1) = j" "j - 1 < length [1..<Suc n]"
      by (simp_all del: upt_Suc)
    then show ?thesis
      unfolding vs by (simp del: upt_Suc of_nat_add)
  qed
  have "k mod 60 < 156" by (rule less_trans [of _ 60]) simp_all
  then have u: "unat (of_nat (100 + k mod 60) :: u8) = 100 + k mod 60" by (rule unat_hr)
  have z: "(of_nat (100 + k mod 60) :: u8) = 100 \<longleftrightarrow> k mod 60 = 0"
  proof
    assume "(of_nat (100 + k mod 60) :: u8) = 100"
    then have "unat (of_nat (100 + k mod 60) :: u8) = unat (100 :: u8)" by (rule arg_cong)
    with u show "k mod 60 = 0" by simp
  next
    assume "k mod 60 = 0"
    then show "(of_nat (100 + k mod 60) :: u8) = 100" by simp
  qed
  from assms have "1 \<le> n" by simp
  from nth [OF order_refl this] have first: "?vs ! 0 = 101" by simp
  have len: "length ?vs = n" unfolding vs by (simp del: upt_Suc)
  from nth [OF assms(2,3)] u z first len show ?thesis
    by (simp only: simp_thms)
qed

theorem hrs_notify_nth_value_witness:
  "heartrate (init_app 100) = 100 \<and> (1 :: nat) \<le> 60 \<and> (60 :: nat) \<le> 61
   \<and> hrs_values (emitted (init_app 100) (run_hrs_notify 61 (init_app 100))) ! (60 - 1) = 100
   \<and> hrs_values (emitted (init_app 100) (run_hrs_notify 61 (init_app 100))) ! 0 = 101"
  using hrs_notify_nth_value [OF heartrate_init_app, of 60 61 100]
  by (simp add: heartrate_init_app)


lemma battery_next_range:
  fixes b :: u8
  assumes "1 \<le> b" and "b \<le> 100"
  shows "0 < b"
    and "1 \<le> (if b - 1 = 0 then 100 else b - 1)"
    and "(if b - 1 = 0 then 100 else b - 1) \<le> 100"
    and "(if b - 1 = 0 then 100 else b - 1) \<noteq> 0"
  using assms by unat_arith+

lemma bas_notify_eq:
  assumes "1 \<le> battery_level s" and "battery_level s \<le> 100"
  shows "bas_notify assert_on s =
     Some (s\<lparr>battery_level := (if battery_level s - 1 = 0 then 100 else battery_level s - 1),
             trace := trace s @ [Bt_bas_get_battery_level,
               Bt_bas_set_battery_level
                 (if battery_level s - 1 = 0 then 100 else battery_level s - 1)]\<rparr>)"
  using battery_next_range(1) [OF assms]
  by (simp add: bas_notify_def bt_bas_get_battery_level_def bt_bas_set_battery_level_def
        emit_def Let_def)

lemma run_bas_notify_invariant:
  assumes "1 \<le> battery_level s" and "battery_level s \<le> 100"
  shows "\<exists>s' es. run_bas_notify assert_on n s = Some s' \<and> trace s' = trace s @ es
    \<and> 1 \<le> battery_level s' \<and> battery_level s' \<le> 100
    \<and> length (bas_values es) = n
    \<and> list_all (\<lambda>v. 1 \<le> v \<and> v \<le> 100) (bas_values es)"
  using assms
proof (induction n arbitrary: s)
  case 0
  then show ?case by simp
next
  case (Suc n)
  let ?b = "if battery_level s - 1 = 0 then 100 else battery_level s - 1"
  let ?s1 = "s\<lparr>battery_level := ?b,
                trace := trace s @ [Bt_bas_get_battery_level, Bt_bas_set_battery_level ?b]\<rparr>"
  have step: "bas_notify assert_on s = Some ?s1"
    by (rule bas_notify_eq [OF Suc.prems])
  have b: "1 \<le> ?b" "?b \<le> 100"
    using battery_next_range(2,3) [OF Suc.prems] by blast+
  then have "1 \<le> battery_level ?s1" "battery_level ?s1 \<le> 100"
    by simp_all
  from Suc.IH [OF this] obtain s' es where
    run: "run_bas_notify assert_on n ?s1 = Some s'"
    and tr: "trace s' = trace ?s1 @ es"
    and rng: "1 \<le> battery_level s'" "battery_level s' \<le> 100"
    and len: "length (bas_values es) = n"
    and vals: "list_all (\<lambda>v. 1 \<le> v \<and> v \<le> 100) (bas_values es)"
    by blast
  let ?es = "[Bt_bas_get_battery_level, Bt_bas_set_battery_level ?b] @ es"
  have "run_bas_notify assert_on (Suc n) s = Some s'"
    by (simp only: run_bas_notify.simps step option.case run)
  moreover have "trace s' = trace s @ ?es"
    using tr by simp
  moreover have "bas_values ?es = ?b # bas_values es"
    by simp
  ultimately show ?case
    using rng len vals b by (intro exI [of _ s'] exI [of _ ?es]) (simp del: append_Cons)
qed

text \<open>
  C3. With the battery level in [1, 100], \<open>n\<close> invocations of \<open>bas_notify\<close> all pass
  the assertion, call the setter \<open>n\<close> times, and every level written lies in [1, 100]
  (0 is never written); the level stays in [1, 100]. One invocation decrements the level
  read and writes 100 in place of a result of 0.
\<close>
theorem bas_notify_range:
  assumes "1 \<le> battery_level s" and "battery_level s \<le> 100"
  shows "(\<exists>s'. run_bas_notify assert_on n s = Some s'
      \<and> 1 \<le> battery_level s' \<and> battery_level s' \<le> 100
      \<and> length (bas_values (emitted s s')) = n
      \<and> list_all (\<lambda>v. 1 \<le> v \<and> v \<le> 100) (bas_values (emitted s s'))
      \<and> 0 \<notin> set (bas_values (emitted s s')))
    \<and> (\<exists>s1. bas_notify assert_on s = Some s1
      \<and> battery_level s1 = (if battery_level s - 1 = 0 then 100 else battery_level s - 1)
      \<and> emitted s s1 = [Bt_bas_get_battery_level,
           Bt_bas_set_battery_level
             (if battery_level s - 1 = 0 then 100 else battery_level s - 1)])"
proof
  from run_bas_notify_invariant [OF assms, of assert_on n] obtain s' es where
    run: "run_bas_notify assert_on n s = Some s'"
    and tr: "trace s' = trace s @ es"
    and rng: "1 \<le> battery_level s'" "battery_level s' \<le> 100"
    and len: "length (bas_values es) = n"
    and vals: "list_all (\<lambda>v. 1 \<le> v \<and> v \<le> 100) (bas_values es)"
    by blast
  have em: "emitted s s' = es" by (rule emitted_append [OF tr])
  from vals have "0 \<notin> set (bas_values es)"
    by (auto simp: list_all_iff)
  with run rng len vals show "\<exists>s'. run_bas_notify assert_on n s = Some s'
      \<and> 1 \<le> battery_level s' \<and> battery_level s' \<le> 100
      \<and> length (bas_values (emitted s s')) = n
      \<and> list_all (\<lambda>v. 1 \<le> v \<and> v \<le> 100) (bas_values (emitted s s'))
      \<and> 0 \<notin> set (bas_values (emitted s s'))"
    by (simp add: em)
next
  show "\<exists>s1. bas_notify assert_on s = Some s1
      \<and> battery_level s1 = (if battery_level s - 1 = 0 then 100 else battery_level s - 1)
      \<and> emitted s s1 = [Bt_bas_get_battery_level,
           Bt_bas_set_battery_level
             (if battery_level s - 1 = 0 then 100 else battery_level s - 1)]"
    by (simp add: bas_notify_eq [OF assms] emitted_def)
qed

theorem bas_notify_range_witness:
  "(1 :: u8) \<le> battery_level (init_app 1) \<and> battery_level (init_app 1) \<le> 100
   \<and> (\<exists>s'. run_bas_notify True 3 (init_app 1) = Some s'
        \<and> list_all (\<lambda>v. 1 \<le> v \<and> v \<le> 100) (bas_values (emitted (init_app 1) s')))
   \<and> (\<exists>s1. bas_notify True (init_app 1) = Some s1 \<and> battery_level s1 = 100)"
proof -
  have h: "(1 :: u8) \<le> battery_level (init_app 1)" "battery_level (init_app 1) \<le> 100"
    by (simp_all add: battery_level_init_app)
  from bas_notify_range [OF h, of True 3] h show ?thesis
    by (simp add: battery_level_init_app) blast
qed

subsection \<open>Callbacks and startup\<close>

lemma build_full_entry_frame:
  "trace (build_full_entry i s) = trace s"
  "adv_conn (build_full_entry i s) = adv_conn s"
  "adv_large (build_full_entry i s) = adv_large s"
  by (simp_all add: build_full_entry_def Let_def)

lemma build_full_entries_frame:
  "trace (build_full_entries i s) = trace s
   \<and> adv_conn (build_full_entries i s) = adv_conn s
   \<and> adv_large (build_full_entries i s) = adv_large s"
proof (induction i s rule: build_full_entries.induct)
  case (1 i s)
  show ?case
  proof (cases "int i < FULL_ENTRY_COUNT")
    case True
    then have "build_full_entries i s = build_full_entries (Suc i) (build_full_entry i s)"
      by (subst build_full_entries.simps) simp
    with "1.IH" [OF True] show ?thesis
      by (simp add: build_full_entry_frame)
  next
    case False
    then have "build_full_entries i s = s"
      by (subst build_full_entries.simps) simp
    then show ?thesis by simp
  qed
qed

lemma build_large_adv_payload_frame:
  "trace (build_large_adv_payload s) = trace s"
  "adv_conn (build_large_adv_payload s) = adv_conn s"
  "adv_large (build_large_adv_payload s) = adv_large s"
  by (simp_all add: build_large_adv_payload_def Let_def build_full_entries_frame)

text \<open>
  C10. \<open>phy_to_str\<close> returns a name for every byte: each of the six PHY codes (the
  case labels, pairwise distinct) gives its own fixed name, and a byte gives "Unknown"
  exactly when it is none of the six.
\<close>
theorem phy_to_str_total:
  assumes "distinct (case_labels c)"
  shows "phy_to_str c (BT_GAP_LE_PHY_NONE c) = ''No packets''
    \<and> phy_to_str c (BT_GAP_LE_PHY_1M c) = ''LE 1M''
    \<and> phy_to_str c (BT_GAP_LE_PHY_2M c) = ''LE 2M''
    \<and> phy_to_str c (BT_GAP_LE_PHY_CODED c) = ''LE Coded''
    \<and> phy_to_str c (BT_GAP_LE_PHY_CODED_S8 c) = ''S=8 Coded''
    \<and> phy_to_str c (BT_GAP_LE_PHY_CODED_S2 c) = ''S=2 Coded''
    \<and> (phy \<notin> set (case_labels c) \<longrightarrow> phy_to_str c phy = ''Unknown'')
    \<and> (phy_to_str c phy = ''Unknown'' \<longrightarrow> phy \<notin> set (case_labels c))"
proof -
  from assms have ne:
    "BT_GAP_LE_PHY_1M c \<noteq> BT_GAP_LE_PHY_NONE c"
    "BT_GAP_LE_PHY_2M c \<noteq> BT_GAP_LE_PHY_NONE c"
    "BT_GAP_LE_PHY_2M c \<noteq> BT_GAP_LE_PHY_1M c"
    "BT_GAP_LE_PHY_CODED c \<noteq> BT_GAP_LE_PHY_NONE c"
    "BT_GAP_LE_PHY_CODED c \<noteq> BT_GAP_LE_PHY_1M c"
    "BT_GAP_LE_PHY_CODED c \<noteq> BT_GAP_LE_PHY_2M c"
    "BT_GAP_LE_PHY_CODED_S8 c \<noteq> BT_GAP_LE_PHY_NONE c"
    "BT_GAP_LE_PHY_CODED_S8 c \<noteq> BT_GAP_LE_PHY_1M c"
    "BT_GAP_LE_PHY_CODED_S8 c \<noteq> BT_GAP_LE_PHY_2M c"
    "BT_GAP_LE_PHY_CODED_S8 c \<noteq> BT_GAP_LE_PHY_CODED c"
    "BT_GAP_LE_PHY_CODED_S2 c \<noteq> BT_GAP_LE_PHY_NONE c"
    "BT_GAP_LE_PHY_CODED_S2 c \<noteq> BT_GAP_LE_PHY_1M c"
    "BT_GAP_LE_PHY_CODED_S2 c \<noteq> BT_GAP_LE_PHY_2M c"
    "BT_GAP_LE_PHY_CODED_S2 c \<noteq> BT_GAP_LE_PHY_CODED c"
    "BT_GAP_LE_PHY_CODED_S2 c \<noteq> BT_GAP_LE_PHY_CODED_S8 c"
    by (auto simp: case_labels_def)
  show ?thesis
    by (simp add: phy_to_str_def case_labels_def ne)
qed

theorem phy_to_str_total_witness:
  "distinct (case_labels \<lparr> BT_GAP_LE_PHY_NONE = 0, BT_GAP_LE_PHY_1M = 1, BT_GAP_LE_PHY_2M = 2,
       BT_GAP_LE_PHY_CODED = 4, BT_GAP_LE_PHY_CODED_S8 = 8, BT_GAP_LE_PHY_CODED_S2 = 16 \<rparr>)
   \<and> 3 \<notin> set (case_labels \<lparr> BT_GAP_LE_PHY_NONE = 0, BT_GAP_LE_PHY_1M = 1, BT_GAP_LE_PHY_2M = 2,
       BT_GAP_LE_PHY_CODED = 4, BT_GAP_LE_PHY_CODED_S8 = 8, BT_GAP_LE_PHY_CODED_S2 = 16 \<rparr>)
   \<and> phy_to_str \<lparr> BT_GAP_LE_PHY_NONE = 0, BT_GAP_LE_PHY_1M = 1, BT_GAP_LE_PHY_2M = 2,
       BT_GAP_LE_PHY_CODED = 4, BT_GAP_LE_PHY_CODED_S8 = 8, BT_GAP_LE_PHY_CODED_S2 = 16 \<rparr> 3
       = ''Unknown''
   \<and> phy_to_str \<lparr> BT_GAP_LE_PHY_NONE = 0, BT_GAP_LE_PHY_1M = 1, BT_GAP_LE_PHY_2M = 2,
       BT_GAP_LE_PHY_CODED = 4, BT_GAP_LE_PHY_CODED_S8 = 8, BT_GAP_LE_PHY_CODED_S2 = 16 \<rparr> 8
       = ''S=8 Coded''"
  using phy_to_str_total [of "\<lparr> BT_GAP_LE_PHY_NONE = 0, BT_GAP_LE_PHY_1M = 1,
       BT_GAP_LE_PHY_2M = 2, BT_GAP_LE_PHY_CODED = 4, BT_GAP_LE_PHY_CODED_S8 = 8,
       BT_GAP_LE_PHY_CODED_S2 = 16 \<rparr>" 3]
  by (simp add: case_labels_def)

text \<open>
  C5. \<open>disconnected\<close> with reason \<open>reason\<close> makes exactly three calls: it logs the
  reason (number and text), submits the work item \<open>start_advertising_worker\<close> once, and
  turns the connection LED off. It never calls \<open>bt_le_ext_adv_start\<close> itself, and no other
  state changes.
\<close>
theorem disconnected_submits_restart:
  "disconnected env conn reason s =
     s\<lparr>trace := trace s @
        [Printk ''Disconnected, reason 0x%02x %s\<newline>''
           [ArgU8 reason, ArgStr (bt_hci_err_to_str env reason)],
         K_work_submit Start_advertising_worker,
         Dk_set_led_off CON_STATUS_LED]\<rparr>
   \<and> length (filter (\<lambda>e. e = K_work_submit Start_advertising_worker)
         (emitted s (disconnected env conn reason s))) = 1
   \<and> Bt_le_ext_adv_start a \<notin> set (emitted s (disconnected env conn reason s))"
  by (simp add: disconnected_def printk_def k_work_submit_def dk_set_led_off_def emit_def
        emitted_def Let_def)

text \<open>
  C6. \<open>connected\<close> with a non-zero \<open>conn_err\<close> formats the peer address
  (\<open>bt_conn_get_dst\<close>, \<open>bt_addr_le_to_str\<close>, which precede the check), logs the error
  and returns: \<open>bt_conn_get_info\<close> is not called, no LED call is made, and nothing of the
  state but the trace changes.
\<close>
theorem connected_error_returns:
  assumes "conn_err \<noteq> 0"
  shows "connected env conn conn_err s =
     s\<lparr>trace := trace s @
        [Bt_conn_get_dst conn, Bt_addr_le_to_str,
         Printk ''Connection failed, err 0x%02x %s\<newline>''
           [ArgU8 conn_err, ArgStr (bt_hci_err_to_str env conn_err)]]\<rparr>
   \<and> Bt_conn_get_info c \<notin> set (emitted s (connected env conn conn_err s))
   \<and> Dk_set_led_on led \<notin> set (emitted s (connected env conn conn_err s))
   \<and> Dk_set_led_off led \<notin> set (emitted s (connected env conn conn_err s))
   \<and> Dk_set_led led v \<notin> set (emitted s (connected env conn conn_err s))"
  using assms
  by (simp add: connected_def printk_def emit_def emitted_def Let_def)


lemma create_advertising_coded_create_conn:
  assumes "create_conn_ret a \<noteq> 0"
  shows "fst (create_advertising_coded a s) = create_conn_ret a"
    and "emitted s (snd (create_advertising_coded a s)) =
      [Bt_le_ext_adv_create param_conn,
       Printk ''Failed to create connectable advertiser (err %d)\<newline>'' [ArgInt (create_conn_ret a)]]"
  using assms
  by (simp_all add: create_advertising_coded_def main_def Let_def printk_def emit_def emitted_def
        k_work_submit_def build_large_adv_payload_frame ad_conn_size_def ad_large_size_def
        FULL_ENTRY_COUNT_def)

lemma create_advertising_coded_set_conn:
  assumes "create_conn_ret a = 0 \<and> set_conn_ret a \<noteq> 0"
  shows "fst (create_advertising_coded a s) = set_conn_ret a"
    and "emitted s (snd (create_advertising_coded a s)) =
      [Bt_le_ext_adv_create param_conn,
       Printk ''Created connectable adv: %p\<newline>'' [ArgPtr (create_conn_adv a)],
       Bt_le_ext_adv_set_data (create_conn_adv a) Ad_conn 3,
       Printk ''Failed to set connectable adv data (err %d)\<newline>'' [ArgInt (set_conn_ret a)]]"
  using assms
  by (simp_all add: create_advertising_coded_def main_def Let_def printk_def emit_def emitted_def
        k_work_submit_def build_large_adv_payload_frame ad_conn_size_def ad_large_size_def
        FULL_ENTRY_COUNT_def)

lemma create_advertising_coded_create_large:
  assumes "create_conn_ret a = 0 \<and> set_conn_ret a = 0 \<and> create_large_ret a \<noteq> 0"
  shows "fst (create_advertising_coded a s) = create_large_ret a"
    and "emitted s (snd (create_advertising_coded a s)) =
      [Bt_le_ext_adv_create param_conn,
       Printk ''Created connectable adv: %p\<newline>'' [ArgPtr (create_conn_adv a)],
       Bt_le_ext_adv_set_data (create_conn_adv a) Ad_conn 3,
       Bt_le_ext_adv_create param_large,
       Printk ''Failed to create large advertiser (err %d)\<newline>'' [ArgInt (create_large_ret a)]]"
  using assms
  by (simp_all add: create_advertising_coded_def main_def Let_def printk_def emit_def emitted_def
        k_work_submit_def build_large_adv_payload_frame ad_conn_size_def ad_large_size_def
        FULL_ENTRY_COUNT_def)

lemma create_advertising_coded_set_large:
  assumes "create_conn_ret a = 0 \<and> set_conn_ret a = 0 \<and> create_large_ret a = 0 \<and> set_large_ret a \<noteq> 0"
  shows "fst (create_advertising_coded a s) = set_large_ret a"
    and "emitted s (snd (create_advertising_coded a s)) =
      [Bt_le_ext_adv_create param_conn,
       Printk ''Created connectable adv: %p\<newline>'' [ArgPtr (create_conn_adv a)],
       Bt_le_ext_adv_set_data (create_conn_adv a) Ad_conn 3,
       Bt_le_ext_adv_create param_large,
       Printk ''Created large adv: %p\<newline>'' [ArgPtr (create_large_adv a)],
       Bt_le_ext_adv_set_data (create_large_adv a) Ad_large 7,
       Printk ''Failed to set large adv data (err %d)\<newline>'' [ArgInt (set_large_ret a)]]"
  using assms
  by (simp_all add: create_advertising_coded_def main_def Let_def printk_def emit_def emitted_def
        k_work_submit_def build_large_adv_payload_frame ad_conn_size_def ad_large_size_def
        FULL_ENTRY_COUNT_def)

lemma create_advertising_coded_ok:
  assumes "create_conn_ret a = 0 \<and> set_conn_ret a = 0 \<and> create_large_ret a = 0 \<and> set_large_ret a = 0"
  shows "fst (create_advertising_coded a s) = 0"
    and "emitted s (snd (create_advertising_coded a s)) =
      [Bt_le_ext_adv_create param_conn,
       Printk ''Created connectable adv: %p\<newline>'' [ArgPtr (create_conn_adv a)],
       Bt_le_ext_adv_set_data (create_conn_adv a) Ad_conn 3,
       Bt_le_ext_adv_create param_large,
       Printk ''Created large adv: %p\<newline>'' [ArgPtr (create_large_adv a)],
       Bt_le_ext_adv_set_data (create_large_adv a) Ad_large 7]"
  using assms
  by (simp_all add: create_advertising_coded_def main_def Let_def printk_def emit_def emitted_def
        k_work_submit_def build_large_adv_payload_frame ad_conn_size_def ad_large_size_def
        FULL_ENTRY_COUNT_def)

lemma main_fails_leds:
  assumes "dk_leds_init_ret env \<noteq> 0"
  shows "fst (main fuel env s) = Some 0"
    and "emitted s (snd (main fuel env s)) =
      [Printk ''Starting Bluetooth Peripheral HR coded sample\<newline>'' [],
       Dk_leds_init,
       Printk ''LEDs init failed (err %d)\<newline>'' [ArgInt (dk_leds_init_ret env)]]"
  using assms
  by (simp_all add: create_advertising_coded_def main_def Let_def printk_def emit_def emitted_def
        k_work_submit_def build_large_adv_payload_frame ad_conn_size_def ad_large_size_def
        FULL_ENTRY_COUNT_def)

lemma main_fails_bt_enable:
  assumes "dk_leds_init_ret env = 0 \<and> bt_enable_ret env \<noteq> 0"
  shows "fst (main fuel env s) = Some 0"
    and "emitted s (snd (main fuel env s)) =
      [Printk ''Starting Bluetooth Peripheral HR coded sample\<newline>'' [],
       Dk_leds_init,
       Bt_enable,
       Printk ''Bluetooth init failed (err %d)\<newline>'' [ArgInt (bt_enable_ret env)]]"
  using assms
  by (simp_all add: create_advertising_coded_def main_def Let_def printk_def emit_def emitted_def
        k_work_submit_def build_large_adv_payload_frame ad_conn_size_def ad_large_size_def
        FULL_ENTRY_COUNT_def)

lemma main_fails_create_conn:
  assumes "dk_leds_init_ret env = 0 \<and> bt_enable_ret env = 0 \<and> create_conn_ret (adv env) \<noteq> 0"
  shows "fst (main fuel env s) = Some 0"
    and "emitted s (snd (main fuel env s)) =
      [Printk ''Starting Bluetooth Peripheral HR coded sample\<newline>'' [],
       Dk_leds_init,
       Bt_enable,
       Printk ''Bluetooth initialized\<newline>'' [],
       Bt_le_ext_adv_create param_conn,
       Printk ''Failed to create connectable advertiser (err %d)\<newline>'' [ArgInt (create_conn_ret (adv env))],
       Printk ''Advertising failed to create (err %d)\<newline>'' [ArgInt (create_conn_ret (adv env))]]"
  using assms
  by (simp_all add: create_advertising_coded_def main_def Let_def printk_def emit_def emitted_def
        k_work_submit_def build_large_adv_payload_frame ad_conn_size_def ad_large_size_def
        FULL_ENTRY_COUNT_def)

lemma main_fails_set_conn:
  assumes "dk_leds_init_ret env = 0 \<and> bt_enable_ret env = 0 \<and> create_conn_ret (adv env) = 0 \<and> set_conn_ret (adv env) \<noteq> 0"
  shows "fst (main fuel env s) = Some 0"
    and "emitted s (snd (main fuel env s)) =
      [Printk ''Starting Bluetooth Peripheral HR coded sample\<newline>'' [],
       Dk_leds_init,
       Bt_enable,
       Printk ''Bluetooth initialized\<newline>'' [],
       Bt_le_ext_adv_create param_conn,
       Printk ''Created connectable adv: %p\<newline>'' [ArgPtr (create_conn_adv (adv env))],
       Bt_le_ext_adv_set_data (create_conn_adv (adv env)) Ad_conn 3,
       Printk ''Failed to set connectable adv data (err %d)\<newline>'' [ArgInt (set_conn_ret (adv env))],
       Printk ''Advertising failed to create (err %d)\<newline>'' [ArgInt (set_conn_ret (adv env))]]"
  using assms
  by (simp_all add: create_advertising_coded_def main_def Let_def printk_def emit_def emitted_def
        k_work_submit_def build_large_adv_payload_frame ad_conn_size_def ad_large_size_def
        FULL_ENTRY_COUNT_def)

lemma main_fails_create_large:
  assumes "dk_leds_init_ret env = 0 \<and> bt_enable_ret env = 0 \<and> create_conn_ret (adv env) = 0 \<and> set_conn_ret (adv env) = 0 \<and> create_large_ret (adv env) \<noteq> 0"
  shows "fst (main fuel env s) = Some 0"
    and "emitted s (snd (main fuel env s)) =
      [Printk ''Starting Bluetooth Peripheral HR coded sample\<newline>'' [],
       Dk_leds_init,
       Bt_enable,
       Printk ''Bluetooth initialized\<newline>'' [],
       Bt_le_ext_adv_create param_conn,
       Printk ''Created connectable adv: %p\<newline>'' [ArgPtr (create_conn_adv (adv env))],
       Bt_le_ext_adv_set_data (create_conn_adv (adv env)) Ad_conn 3,
       Bt_le_ext_adv_create param_large,
       Printk ''Failed to create large advertiser (err %d)\<newline>'' [ArgInt (create_large_ret (adv env))],
       Printk ''Advertising failed to create (err %d)\<newline>'' [ArgInt (create_large_ret (adv env))]]"
  using assms
  by (simp_all add: create_advertising_coded_def main_def Let_def printk_def emit_def emitted_def
        k_work_submit_def build_large_adv_payload_frame ad_conn_size_def ad_large_size_def
        FULL_ENTRY_COUNT_def)

lemma main_fails_set_large:
  assumes "dk_leds_init_ret env = 0 \<and> bt_enable_ret env = 0 \<and> create_conn_ret (adv env) = 0 \<and> set_conn_ret (adv env) = 0 \<and> create_large_ret (adv env) = 0 \<and> set_large_ret (adv env) \<noteq> 0"
  shows "fst (main fuel env s) = Some 0"
    and "emitted s (snd (main fuel env s)) =
      [Printk ''Starting Bluetooth Peripheral HR coded sample\<newline>'' [],
       Dk_leds_init,
       Bt_enable,
       Printk ''Bluetooth initialized\<newline>'' [],
       Bt_le_ext_adv_create param_conn,
       Printk ''Created connectable adv: %p\<newline>'' [ArgPtr (create_conn_adv (adv env))],
       Bt_le_ext_adv_set_data (create_conn_adv (adv env)) Ad_conn 3,
       Bt_le_ext_adv_create param_large,
       Printk ''Created large adv: %p\<newline>'' [ArgPtr (create_large_adv (adv env))],
       Bt_le_ext_adv_set_data (create_large_adv (adv env)) Ad_large 7,
       Printk ''Failed to set large adv data (err %d)\<newline>'' [ArgInt (set_large_ret (adv env))],
       Printk ''Advertising failed to create (err %d)\<newline>'' [ArgInt (set_large_ret (adv env))]]"
  using assms
  by (simp_all add: create_advertising_coded_def main_def Let_def printk_def emit_def emitted_def
        k_work_submit_def build_large_adv_payload_frame ad_conn_size_def ad_large_size_def
        FULL_ENTRY_COUNT_def)


lemma main_failure_not_advertising:
  assumes "dk_leds_init_ret env \<noteq> 0 \<or> bt_enable_ret env \<noteq> 0
    \<or> create_conn_ret (adv env) \<noteq> 0 \<or> set_conn_ret (adv env) \<noteq> 0
    \<or> create_large_ret (adv env) \<noteq> 0 \<or> set_large_ret (adv env) \<noteq> 0"
  shows "fst (main fuel env s) = Some 0
    \<and> K_work_submit w \<notin> set (emitted s (snd (main fuel env s)))
    \<and> K_work_schedule w d \<notin> set (emitted s (snd (main fuel env s)))
    \<and> Bt_le_ext_adv_start p \<notin> set (emitted s (snd (main fuel env s)))"
proof -
  consider
    (leds) "dk_leds_init_ret env \<noteq> 0"
    | (bt) "dk_leds_init_ret env = 0 \<and> bt_enable_ret env \<noteq> 0"
    | (c1) "dk_leds_init_ret env = 0 \<and> bt_enable_ret env = 0
            \<and> create_conn_ret (adv env) \<noteq> 0"
    | (s1) "dk_leds_init_ret env = 0 \<and> bt_enable_ret env = 0
            \<and> create_conn_ret (adv env) = 0 \<and> set_conn_ret (adv env) \<noteq> 0"
    | (c2) "dk_leds_init_ret env = 0 \<and> bt_enable_ret env = 0
            \<and> create_conn_ret (adv env) = 0 \<and> set_conn_ret (adv env) = 0
            \<and> create_large_ret (adv env) \<noteq> 0"
    | (s2) "dk_leds_init_ret env = 0 \<and> bt_enable_ret env = 0
            \<and> create_conn_ret (adv env) = 0 \<and> set_conn_ret (adv env) = 0
            \<and> create_large_ret (adv env) = 0 \<and> set_large_ret (adv env) \<noteq> 0"
    using assms by blast
  then show ?thesis
  proof cases
    case leds
    from main_fails_leds [OF this] show ?thesis by simp
  next
    case bt
    from main_fails_bt_enable [OF this] show ?thesis by simp
  next
    case c1
    from main_fails_create_conn [OF this] show ?thesis by simp
  next
    case s1
    from main_fails_set_conn [OF this] show ?thesis by simp
  next
    case c2
    from main_fails_create_large [OF this] show ?thesis by simp
  next
    case s2
    from main_fails_set_large [OF this] show ?thesis by simp
  qed
qed

lemma main_success_loops:
  assumes "dk_leds_init_ret env = 0 \<and> bt_enable_ret env = 0
    \<and> create_conn_ret (adv env) = 0 \<and> set_conn_ret (adv env) = 0
    \<and> create_large_ret (adv env) = 0 \<and> set_large_ret (adv env) = 0"
  shows "fst (main fuel env s) = None"
  using assms
  by (simp add: create_advertising_coded_def main_def Let_def)

lemma connected_get_info_fails:
  assumes "conn_err = 0 \<and> get_info_ret env \<noteq> 0"
  shows "connected env conn conn_err s =
     s\<lparr>trace := trace s @
        [Bt_conn_get_dst conn, Bt_addr_le_to_str, Bt_conn_get_info conn,
         Printk ''Failed to get connection info (err %d)\<newline>'' [ArgInt (get_info_ret env)],
         Dk_set_led_on CON_STATUS_LED]\<rparr>"
  using assms
  by (simp add: connected_def printk_def emit_def dk_set_led_on_def Let_def)

lemma connected_ok_led_on:
  assumes "conn_err = 0"
  shows "last (trace (connected env conn conn_err s)) = Dk_set_led_on CON_STATUS_LED"
  using assms
  by (simp add: connected_def printk_def emit_def dk_set_led_on_def Let_def)


text \<open>
  C7. Startup stops at the first step that fails. For each of the six steps (LED init,
  Bluetooth enable, and the four create and set-data calls of
  \<open>create_advertising_coded\<close>), if it is the first to return non-zero then \<open>main\<close>
  returns 0 and the calls made are exactly the steps up to and including that one, each
  once, followed by the log lines carrying the error code; \<open>create_advertising_coded\<close>
  returns that error code, and 0 when all four calls succeed. After any failure no work
  item has been submitted or scheduled and no advertising set started. When no step fails
  \<open>main\<close> does not return.
\<close>
theorem startup_failure_aborts:
  "(dk_leds_init_ret env \<noteq> 0 \<longrightarrow>
        fst (main fuel env s) = Some 0
        \<and> emitted s (snd (main fuel env s)) =
          [Printk ''Starting Bluetooth Peripheral HR coded sample\<newline>'' [],
           Dk_leds_init,
           Printk ''LEDs init failed (err %d)\<newline>'' [ArgInt (dk_leds_init_ret env)]])
    \<and> (dk_leds_init_ret env = 0 \<and> bt_enable_ret env \<noteq> 0 \<longrightarrow>
        fst (main fuel env s) = Some 0
        \<and> emitted s (snd (main fuel env s)) =
          [Printk ''Starting Bluetooth Peripheral HR coded sample\<newline>'' [],
           Dk_leds_init,
           Bt_enable,
           Printk ''Bluetooth init failed (err %d)\<newline>'' [ArgInt (bt_enable_ret env)]])
    \<and> (dk_leds_init_ret env = 0 \<and> bt_enable_ret env = 0 \<and> create_conn_ret (adv env) \<noteq> 0 \<longrightarrow>
        fst (main fuel env s) = Some 0
        \<and> emitted s (snd (main fuel env s)) =
          [Printk ''Starting Bluetooth Peripheral HR coded sample\<newline>'' [],
           Dk_leds_init,
           Bt_enable,
           Printk ''Bluetooth initialized\<newline>'' [],
           Bt_le_ext_adv_create param_conn,
           Printk ''Failed to create connectable advertiser (err %d)\<newline>'' [ArgInt (create_conn_ret (adv env))],
           Printk ''Advertising failed to create (err %d)\<newline>'' [ArgInt (create_conn_ret (adv env))]])
    \<and> (dk_leds_init_ret env = 0 \<and> bt_enable_ret env = 0 \<and> create_conn_ret (adv env) = 0 \<and> set_conn_ret (adv env) \<noteq> 0 \<longrightarrow>
        fst (main fuel env s) = Some 0
        \<and> emitted s (snd (main fuel env s)) =
          [Printk ''Starting Bluetooth Peripheral HR coded sample\<newline>'' [],
           Dk_leds_init,
           Bt_enable,
           Printk ''Bluetooth initialized\<newline>'' [],
           Bt_le_ext_adv_create param_conn,
           Printk ''Created connectable adv: %p\<newline>'' [ArgPtr (create_conn_adv (adv env))],
           Bt_le_ext_adv_set_data (create_conn_adv (adv env)) Ad_conn 3,
           Printk ''Failed to set connectable adv data (err %d)\<newline>'' [ArgInt (set_conn_ret (adv env))],
           Printk ''Advertising failed to create (err %d)\<newline>'' [ArgInt (set_conn_ret (adv env))]])
    \<and> (dk_leds_init_ret env = 0 \<and> bt_enable_ret env = 0 \<and> create_conn_ret (adv env) = 0 \<and> set_conn_ret (adv env) = 0 \<and> create_large_ret (adv env) \<noteq> 0 \<longrightarrow>
        fst (main fuel env s) = Some 0
        \<and> emitted s (snd (main fuel env s)) =
          [Printk ''Starting Bluetooth Peripheral HR coded sample\<newline>'' [],
           Dk_leds_init,
           Bt_enable,
           Printk ''Bluetooth initialized\<newline>'' [],
           Bt_le_ext_adv_create param_conn,
           Printk ''Created connectable adv: %p\<newline>'' [ArgPtr (create_conn_adv (adv env))],
           Bt_le_ext_adv_set_data (create_conn_adv (adv env)) Ad_conn 3,
           Bt_le_ext_adv_create param_large,
           Printk ''Failed to create large advertiser (err %d)\<newline>'' [ArgInt (create_large_ret (adv env))],
           Printk ''Advertising failed to create (err %d)\<newline>'' [ArgInt (create_large_ret (adv env))]])
    \<and> (dk_leds_init_ret env = 0 \<and> bt_enable_ret env = 0 \<and> create_conn_ret (adv env) = 0 \<and> set_conn_ret (adv env) = 0 \<and> create_large_ret (adv env) = 0 \<and> set_large_ret (adv env) \<noteq> 0 \<longrightarrow>
        fst (main fuel env s) = Some 0
        \<and> emitted s (snd (main fuel env s)) =
          [Printk ''Starting Bluetooth Peripheral HR coded sample\<newline>'' [],
           Dk_leds_init,
           Bt_enable,
           Printk ''Bluetooth initialized\<newline>'' [],
           Bt_le_ext_adv_create param_conn,
           Printk ''Created connectable adv: %p\<newline>'' [ArgPtr (create_conn_adv (adv env))],
           Bt_le_ext_adv_set_data (create_conn_adv (adv env)) Ad_conn 3,
           Bt_le_ext_adv_create param_large,
           Printk ''Created large adv: %p\<newline>'' [ArgPtr (create_large_adv (adv env))],
           Bt_le_ext_adv_set_data (create_large_adv (adv env)) Ad_large 7,
           Printk ''Failed to set large adv data (err %d)\<newline>'' [ArgInt (set_large_ret (adv env))],
           Printk ''Advertising failed to create (err %d)\<newline>'' [ArgInt (set_large_ret (adv env))]])
    \<and> (create_conn_ret a \<noteq> 0 \<longrightarrow>
        fst (create_advertising_coded a t) = create_conn_ret a
        \<and> emitted t (snd (create_advertising_coded a t)) =
          [Bt_le_ext_adv_create param_conn,
           Printk ''Failed to create connectable advertiser (err %d)\<newline>'' [ArgInt (create_conn_ret a)]])
    \<and> (create_conn_ret a = 0 \<and> set_conn_ret a \<noteq> 0 \<longrightarrow>
        fst (create_advertising_coded a t) = set_conn_ret a
        \<and> emitted t (snd (create_advertising_coded a t)) =
          [Bt_le_ext_adv_create param_conn,
           Printk ''Created connectable adv: %p\<newline>'' [ArgPtr (create_conn_adv a)],
           Bt_le_ext_adv_set_data (create_conn_adv a) Ad_conn 3,
           Printk ''Failed to set connectable adv data (err %d)\<newline>'' [ArgInt (set_conn_ret a)]])
    \<and> (create_conn_ret a = 0 \<and> set_conn_ret a = 0 \<and> create_large_ret a \<noteq> 0 \<longrightarrow>
        fst (create_advertising_coded a t) = create_large_ret a
        \<and> emitted t (snd (create_advertising_coded a t)) =
          [Bt_le_ext_adv_create param_conn,
           Printk ''Created connectable adv: %p\<newline>'' [ArgPtr (create_conn_adv a)],
           Bt_le_ext_adv_set_data (create_conn_adv a) Ad_conn 3,
           Bt_le_ext_adv_create param_large,
           Printk ''Failed to create large advertiser (err %d)\<newline>'' [ArgInt (create_large_ret a)]])
    \<and> (create_conn_ret a = 0 \<and> set_conn_ret a = 0 \<and> create_large_ret a = 0 \<and> set_large_ret a \<noteq> 0 \<longrightarrow>
        fst (create_advertising_coded a t) = set_large_ret a
        \<and> emitted t (snd (create_advertising_coded a t)) =
          [Bt_le_ext_adv_create param_conn,
           Printk ''Created connectable adv: %p\<newline>'' [ArgPtr (create_conn_adv a)],
           Bt_le_ext_adv_set_data (create_conn_adv a) Ad_conn 3,
           Bt_le_ext_adv_create param_large,
           Printk ''Created large adv: %p\<newline>'' [ArgPtr (create_large_adv a)],
           Bt_le_ext_adv_set_data (create_large_adv a) Ad_large 7,
           Printk ''Failed to set large adv data (err %d)\<newline>'' [ArgInt (set_large_ret a)]])
    \<and> (create_conn_ret a = 0 \<and> set_conn_ret a = 0 \<and> create_large_ret a = 0 \<and> set_large_ret a = 0 \<longrightarrow>
        fst (create_advertising_coded a t) = 0
        \<and> emitted t (snd (create_advertising_coded a t)) =
          [Bt_le_ext_adv_create param_conn,
           Printk ''Created connectable adv: %p\<newline>'' [ArgPtr (create_conn_adv a)],
           Bt_le_ext_adv_set_data (create_conn_adv a) Ad_conn 3,
           Bt_le_ext_adv_create param_large,
           Printk ''Created large adv: %p\<newline>'' [ArgPtr (create_large_adv a)],
           Bt_le_ext_adv_set_data (create_large_adv a) Ad_large 7])
    \<and> (dk_leds_init_ret env \<noteq> 0 \<or> bt_enable_ret env \<noteq> 0
        \<or> create_conn_ret (adv env) \<noteq> 0 \<or> set_conn_ret (adv env) \<noteq> 0
        \<or> create_large_ret (adv env) \<noteq> 0 \<or> set_large_ret (adv env) \<noteq> 0 \<longrightarrow>
        fst (main fuel env s) = Some 0
        \<and> K_work_submit w \<notin> set (emitted s (snd (main fuel env s)))
        \<and> K_work_schedule w d \<notin> set (emitted s (snd (main fuel env s)))
        \<and> Bt_le_ext_adv_start p \<notin> set (emitted s (snd (main fuel env s))))
    \<and> (dk_leds_init_ret env = 0 \<and> bt_enable_ret env = 0
        \<and> create_conn_ret (adv env) = 0 \<and> set_conn_ret (adv env) = 0
        \<and> create_large_ret (adv env) = 0 \<and> set_large_ret (adv env) = 0 \<longrightarrow>
        fst (main fuel env s) = None)"
  by (intro conjI impI;
      erule main_fails_leds main_fails_bt_enable main_fails_create_conn main_fails_set_conn
        main_fails_create_large main_fails_set_large
        create_advertising_coded_create_conn create_advertising_coded_set_conn
        create_advertising_coded_create_large create_advertising_coded_set_large
        create_advertising_coded_ok main_success_loops
        main_failure_not_advertising [THEN conjunct1]
        main_failure_not_advertising [THEN conjunct2, THEN conjunct1]
        main_failure_not_advertising [THEN conjunct2, THEN conjunct2, THEN conjunct1]
        main_failure_not_advertising [THEN conjunct2, THEN conjunct2, THEN conjunct2])

theorem startup_failure_aborts_witness:
  "let E = (\<lambda>l b c1 s1 c2 s2.
         \<lparr> dk_leds_init_ret = l, bt_enable_ret = b,
           adv = \<lparr> create_conn_ret = c1, create_conn_adv = 1, set_conn_ret = s1,
                   create_large_ret = c2, create_large_adv = 2, set_large_ret = s2 \<rparr> \<rparr>)
   in fst (main 5 (E (- 5) 0 0 0 0 0) (init_app 100)) = Some 0
    \<and> fst (main 5 (E 0 (- 5) 0 0 0 0) (init_app 100)) = Some 0
    \<and> emitted (init_app 100) (snd (main 5 (E 0 0 (- 12) 0 0 0) (init_app 100))) =
        [Printk ''Starting Bluetooth Peripheral HR coded sample\<newline>'' [],
         Dk_leds_init, Bt_enable, Printk ''Bluetooth initialized\<newline>'' [],
         Bt_le_ext_adv_create param_conn,
         Printk ''Failed to create connectable advertiser (err %d)\<newline>'' [ArgInt (- 12)],
         Printk ''Advertising failed to create (err %d)\<newline>'' [ArgInt (- 12)]]
    \<and> fst (main 5 (E 0 0 0 (- 22) 0 0) (init_app 100)) = Some 0
    \<and> fst (main 5 (E 0 0 0 0 (- 12) 0) (init_app 100)) = Some 0
    \<and> fst (main 5 (E 0 0 0 0 0 (- 22)) (init_app 100)) = Some 0
    \<and> fst (create_advertising_coded (adv (E 0 0 0 0 0 (- 22))) (init_app 100)) = - 22
    \<and> fst (create_advertising_coded (adv (E 0 0 0 (- 22) (- 12) 0)) (init_app 100)) = - 22
    \<and> fst (main 5 (E 0 0 0 0 0 0) (init_app 100)) = None"
proof -
  define E where "E = (\<lambda>l b c1 s1 c2 s2.
         \<lparr> dk_leds_init_ret = l, bt_enable_ret = b,
           adv = \<lparr> create_conn_ret = c1, create_conn_adv = 1 :: nat, set_conn_ret = s1,
                   create_large_ret = c2, create_large_adv = 2 :: nat, set_large_ret = s2 \<rparr> \<rparr>)"
  note t = startup_failure_aborts [where fuel = 5 and s = "init_app 100" and t = "init_app 100"]
  show ?thesis
    unfolding Let_def E_def [symmetric]
    using t [where env = "E (- 5) 0 0 0 0 0" and a = "adv (E 0 0 0 0 0 (- 22))"]
      t [where env = "E 0 (- 5) 0 0 0 0" and a = "adv (E 0 0 0 (- 22) (- 12) 0)"]
      t [where env = "E 0 0 (- 12) 0 0 0"]
      t [where env = "E 0 0 0 (- 22) 0 0"]
      t [where env = "E 0 0 0 0 (- 12) 0"]
      t [where env = "E 0 0 0 0 0 (- 22)"]
      t [where env = "E 0 0 0 0 0 0"]
    by (simp add: E_def)
qed

theorem connected_error_returns_witness:
  "let env = \<lparr> phy_codes = \<lparr> BT_GAP_LE_PHY_NONE = 0, BT_GAP_LE_PHY_1M = 1,
                   BT_GAP_LE_PHY_2M = 2, BT_GAP_LE_PHY_CODED = 4,
                   BT_GAP_LE_PHY_CODED_S8 = 8, BT_GAP_LE_PHY_CODED_S2 = 16 \<rparr>,
                bt_hci_err_to_str = (\<lambda>e. ''ERR''), addr_str = ''AA:BB'',
                get_info_ret = 0, get_info_phy = \<lparr> tx_phy = 4, rx_phy = 4 \<rparr> \<rparr>
   in (0x3E :: u8) \<noteq> 0
    \<and> connected env 1 0x3E (init_app 100) =
        (init_app 100)\<lparr>trace :=
          [Bt_conn_get_dst 1, Bt_addr_le_to_str,
           Printk ''Connection failed, err 0x%02x %s\<newline>'' [ArgU8 0x3E, ArgStr ''ERR'']]\<rparr>"
proof -
  have h: "(0x3E :: u8) \<noteq> 0" by simp
  have t: "trace (init_app 100) = []" by (simp add: init_app_def)
  show ?thesis
    unfolding Let_def
    using connected_error_returns [OF h, where s = "init_app 100" and conn = 1] h
    by (simp add: t)
qed

text \<open>
  C8. In \<open>connected\<close> without a connection error, a failing \<open>bt_conn_get_info\<close> is
  logged and the handler goes on: its last call turns the connection LED on, as it does
  whenever there is no connection error. In \<open>main\<close>, a failing
  \<open>bt_le_ext_adv_create\<close> (for either set) ends startup: \<open>main\<close> logs and returns 0
  with nothing after the failed call but the two log lines.
\<close>
theorem phy_query_failure_not_fatal:
  "(conn_err = 0 \<and> get_info_ret cenv \<noteq> 0 \<longrightarrow>
      connected cenv conn conn_err s =
        s\<lparr>trace := trace s @
          [Bt_conn_get_dst conn, Bt_addr_le_to_str, Bt_conn_get_info conn,
           Printk ''Failed to get connection info (err %d)\<newline>''
             [ArgInt (get_info_ret cenv)],
           Dk_set_led_on CON_STATUS_LED]\<rparr>)
   \<and> (conn_err = 0 \<longrightarrow>
      last (trace (connected cenv conn conn_err s)) = Dk_set_led_on CON_STATUS_LED)
   \<and> (dk_leds_init_ret env = 0 \<and> bt_enable_ret env = 0 \<and> create_conn_ret (adv env) \<noteq> 0 \<longrightarrow>
      fst (main fuel env s) = Some 0
      \<and> emitted s (snd (main fuel env s)) =
        [Printk ''Starting Bluetooth Peripheral HR coded sample\<newline>'' [],
         Dk_leds_init,
         Bt_enable,
         Printk ''Bluetooth initialized\<newline>'' [],
         Bt_le_ext_adv_create param_conn,
         Printk ''Failed to create connectable advertiser (err %d)\<newline>'' [ArgInt (create_conn_ret (adv env))],
         Printk ''Advertising failed to create (err %d)\<newline>'' [ArgInt (create_conn_ret (adv env))]])
   \<and> (dk_leds_init_ret env = 0 \<and> bt_enable_ret env = 0
      \<and> create_conn_ret (adv env) = 0 \<and> set_conn_ret (adv env) = 0 \<and> create_large_ret (adv env) \<noteq> 0 \<longrightarrow>
      fst (main fuel env s) = Some 0
      \<and> emitted s (snd (main fuel env s)) =
        [Printk ''Starting Bluetooth Peripheral HR coded sample\<newline>'' [],
         Dk_leds_init,
         Bt_enable,
         Printk ''Bluetooth initialized\<newline>'' [],
         Bt_le_ext_adv_create param_conn,
         Printk ''Created connectable adv: %p\<newline>'' [ArgPtr (create_conn_adv (adv env))],
         Bt_le_ext_adv_set_data (create_conn_adv (adv env)) Ad_conn 3,
         Bt_le_ext_adv_create param_large,
         Printk ''Failed to create large advertiser (err %d)\<newline>'' [ArgInt (create_large_ret (adv env))],
         Printk ''Advertising failed to create (err %d)\<newline>'' [ArgInt (create_large_ret (adv env))]])"
  by (intro conjI impI;
      erule connected_get_info_fails connected_ok_led_on
        main_fails_create_conn main_fails_create_large)

theorem phy_query_failure_not_fatal_witness:
  "let cenv = \<lparr> phy_codes = \<lparr> BT_GAP_LE_PHY_NONE = 0, BT_GAP_LE_PHY_1M = 1,
                   BT_GAP_LE_PHY_2M = 2, BT_GAP_LE_PHY_CODED = 4,
                   BT_GAP_LE_PHY_CODED_S8 = 8, BT_GAP_LE_PHY_CODED_S2 = 16 \<rparr>,
                bt_hci_err_to_str = (\<lambda>e. ''ERR''), addr_str = ''AA:BB'',
                get_info_ret = - 128, get_info_phy = \<lparr> tx_phy = 4, rx_phy = 4 \<rparr> \<rparr>;
       env = \<lparr> dk_leds_init_ret = 0, bt_enable_ret = 0,
           adv = \<lparr> create_conn_ret = - 12, create_conn_adv = 0, set_conn_ret = 0,
                   create_large_ret = 0, create_large_adv = 0, set_large_ret = 0 \<rparr> \<rparr>
   in get_info_ret cenv \<noteq> 0
    \<and> last (trace (connected cenv 1 0 (init_app 100))) = Dk_set_led_on CON_STATUS_LED
    \<and> Printk ''Failed to get connection info (err %d)\<newline>'' [ArgInt (- 128)]
         \<in> set (trace (connected cenv 1 0 (init_app 100)))
    \<and> create_conn_ret (adv env) \<noteq> 0
    \<and> fst (main 5 env (init_app 100)) = Some 0"
  unfolding Let_def
  using phy_query_failure_not_fatal [where conn_err = 0 and conn = 1 and s = "init_app 100"
      and fuel = 5
      and cenv = "\<lparr> phy_codes = \<lparr> BT_GAP_LE_PHY_NONE = 0, BT_GAP_LE_PHY_1M = 1,
                   BT_GAP_LE_PHY_2M = 2, BT_GAP_LE_PHY_CODED = 4,
                   BT_GAP_LE_PHY_CODED_S8 = 8, BT_GAP_LE_PHY_CODED_S2 = 16 \<rparr>,
                bt_hci_err_to_str = (\<lambda>e. ''ERR''), addr_str = ''AA:BB'',
                get_info_ret = - 128, get_info_phy = \<lparr> tx_phy = 4, rx_phy = 4 \<rparr> \<rparr>"
      and env = "\<lparr> dk_leds_init_ret = 0, bt_enable_ret = 0,
           adv = \<lparr> create_conn_ret = - 12, create_conn_adv = 0, set_conn_ret = 0,
                   create_large_ret = 0, create_large_adv = 0, set_large_ret = 0 \<rparr> \<rparr>"]
  by simp

end
